theory Spec2Isabelle
  imports Main
begin

section \<open>The synchronizer of the notes application\<close>

text \<open>
  A name of the source that ends in an underscore, or that is taken in HOL, is written with a
  prime: \<open>state'\<close> is the field \<open>state_\<close>, \<open>id'\<close> the field \<open>id\<close>.

  A shallow embedding of the class \<open>Synchronizer\<close> (third part of
  \<^verbatim>\<open>src/packages/app-desktop/gui/Root.tsx\<close>, lines 338 to 1397). The class drives
  collaborators that are not part of the source: the file API of the sync target, the item
  store (\<open>BaseItem\<close>, \<open>Note\<close>, \<open>Resource\<close>, \<open>Folder\<close>), the lock handler, the migration
  handler, the item uploader and the download queue. The embedding therefore has three parts:

  \<^item> the object's fields and the local variables of \<open>start\<close> that outlive a loop are the
    record \<open>sync\<close>, passed explicitly;
  \<^item> every call to a collaborator appends an \<open>event\<close> to the field \<open>trace\<close>, so that what the
    synchronizer asked of its collaborators can be read off afterwards;
  \<^item> what a collaborator answers is read from the record \<open>env\<close>. An answer may depend on the
    moment of the call, which is the length of the trace at that moment, so no collaborator is
    assumed to answer the same question twice in the same way.

  A \<open>throw\<close> of the source is the left injection of the result, a \<open>try\<close>/\<open>catch\<close> is
  \<open>tryCatch\<close>.
\<close>

subsection \<open>Data\<close>

text \<open>
  Modelled from the spec: the constants \<open>BaseModel.TYPE_*\<close> are declared outside the source;
  section 3 of the specification lists the variants of an item.
\<close>

datatype model_type =
  TYPE_FOLDER | TYPE_NOTE | TYPE_RESOURCE | TYPE_TAG | TYPE_NOTE_TAG | TYPE_REVISION
  | TYPE_MASTER_KEY

text \<open>
  Modelled from the spec: the constants \<open>Resource.FETCH_STATUS_*\<close> are declared outside the
  source; section 3 of the specification lists the four values.
\<close>

datatype fetch_status =
  FETCH_STATUS_IDLE | FETCH_STATUS_STARTED | FETCH_STATUS_DONE | FETCH_STATUS_ERROR

text \<open>
  An item as the store hands it over, joined with the \<open>sync_time\<close> of its sync item for
  the current target. Times are millisecond epochs; an absent \<open>sync_time\<close>,
  \<open>user_updated_time\<close> or \<open>user_created_time\<close> is \<open>0\<close>, which is what the tests
  \<open>!local.sync_time\<close> and \<open>!content.user_updated_time\<close> of the source cannot tell from absence.
\<close>

record item =
  id' :: string
  type' :: model_type
  updated_time :: nat
  created_time :: nat
  user_updated_time :: nat
  user_created_time :: nat
  sync_time :: nat
  encryption_applied :: bool
  size' :: nat
  title :: string
  share_id :: string

text \<open>The interface \<open>RemoteItem\<close> (lines 367 to 383), with the fields the class reads.\<close>

record remote_item =
  r_id :: string
  r_path :: string
  r_isDeleted :: bool
  r_jop_updated_time :: "nat option"

record deleted_item =
  item_id :: string
  item_type :: model_type

text \<open>
  An error object: \<open>error.code\<close>, \<open>error.message\<close> and \<open>error.type\<close>. A plain \<open>Error\<close>
  has the empty code.
\<close>

record JoplinError =
  code :: string
  message :: string
  etype :: string

definition newJoplinError :: "string \<Rightarrow> string \<Rightarrow> JoplinError" where
  "newJoplinError msg c = \<lparr>code = c, message = msg, etype = []\<rparr>"

text \<open>
  The delta context is opaque to the class apart from the two caches it deletes before it
  hands the context to \<open>saveContextHandler\<close>.
\<close>

record delta_context =
  continuation :: string
  statsCache :: "string option"
  statIdsCache :: "string option"

text \<open>The context given to and returned by \<open>start\<close>: only its field \<open>delta\<close> is touched.\<close>

record sync_context =
  delta :: "delta_context option"
  other_fields :: string

record options =
  opt_onProgress :: bool
  opt_context :: "sync_context option"
  opt_syncSteps :: "string list option"
  opt_throwOnError :: bool
  opt_saveContextHandler :: bool

text \<open>An entry of \<open>progressReport_.errors\<close>: an error object or a message.\<close>

datatype report_error = ErrorObject JoplinError | ErrorMessage string

text \<open>
  \<open>progressReport'\<close>: the counters keyed by action (an absent counter is \<open>0\<close>, as
  \<open>logSyncOperation\<close> reads it), the errors, and the three named fields.
\<close>

record report =
  counters :: "string \<Rightarrow> nat"
  errors :: "report_error list"
  startTime :: "nat option"
  completedTime :: "nat option"
  report_state :: "string option"

definition emptyReport :: report where
  "emptyReport =
     \<lparr>counters = (\<lambda>_. 0), errors = [], startTime = None, completedTime = None,
      report_state = None\<rparr>"

datatype lock_type = LockSync | LockExclusive

text \<open>The calls the class makes through \<open>apiCall\<close>, with their arguments.\<close>

datatype api_request =
    ApiStat string
  | ApiGet string
  | ApiPut string string string
  | ApiDelete string
  | ApiDelta "delta_context option" nat

fun fnName :: "api_request \<Rightarrow> string" where
  "fnName (ApiStat _) = ''stat''"
| "fnName (ApiGet _) = ''get''"
| "fnName (ApiPut _ _ _) = ''put''"
| "fnName (ApiDelete _) = ''delete''"
| "fnName (ApiDelta _ _) = ''delta''"

text \<open>The other calls to collaborators that the class awaits.\<close>

datatype call =
    IndexNoteResources
  | UpdateAllShareIds
  | MasterKeyCount
  | ApiInitialize
  | CheckCanSync
  | Upgrade nat
  | AcquireLock lock_type string string
  | ReleaseLock lock_type string string
  | HasActiveLock lock_type "(string \<times> string) option"
  | ItemsThatNeedSync nat
  | PreUploadItems "item list"
  | ResourceLocalState string
  | SaveSyncDisabled nat item string bool
  | FullPathForSyncUpload item
  | SerializeAndUploadItem string item
  | SaveSyncTime nat item nat
  | Unserialize string
  | ItemSave item bool nat
  | ItemDelete string bool
  | CreateConflictNote item
  | CreateConflictResourceNote item
  | SetLocalState string fetch_status
  | DeletedItems nat
  | RemoteDeletedItem nat string
  | QueueStop
  | QueueWaitForResult string
  | LoadItemsByIds "string list"
  | ResourceLocalStateSave string fetch_status
  | EnableEncryption item
  | LoadMasterKeysFromSettings
  | FolderNoteIds string
  | MarkNotesAsConflict string
  | FolderDelete string
  | DeleteOrphanSyncItems
  | ShareMaintenance
  | LogSyncSummary

datatype action =
    SYNC_STARTED
  | SYNC_REPORT_UPDATE report
  | SYNC_HAS_DISABLED_SYNC_ITEMS
  | SYNC_GOT_ENCRYPTED_ITEM
  | SYNC_CREATED_OR_UPDATED_RESOURCE string
  | SYNC_COMPLETED bool

text \<open>
  What the class does to the outside, in the order it does it. \<open>Api\<close> is a call that reached
  the file API, \<open>Call\<close> any other awaited call, \<open>Log\<close> a line given to the logger (only its
  level is kept), the others are the callbacks and the event bus.
\<close>

datatype event =
    Api api_request
  | Call call
  | Dispatch action
  | Emit string bool
  | OnProgress report
  | SaveContext delta_context
  | SetUpgradeState
  | SetTempDirName
  | NewQueue
  | QueuePush string
  | StartAutoLockRefresh
  | StopAutoLockRefresh
  | LogLastRequests
  | Log string

subsection \<open>The object and the environment\<close>

text \<open>
  The fields of the class (lines 405 to 426), then the local variables of \<open>start\<close> that the
  statements after a \<open>throw\<close> can still read (\<open>donePaths\<close>, \<open>localFoldersToDelete\<close>,
  \<open>hasAutoEnabledEncryption\<close>, \<open>syncLock\<close>, \<open>outputContext\<close>), then the trace. The services are kept as the fact that
  they were set.
\<close>

record sync =
  appType' :: string
  clientId' :: string
  state' :: string
  cancelling' :: bool
  maxResourceSize' :: "nat option"
  downloadQueue' :: bool
  syncTargetIsLocked' :: bool
  resourceService' :: bool
  shareService' :: bool
  testingHooks' :: "string list"
  progressReport' :: report
  donePaths :: "string list"
  localFoldersToDelete :: "item list"
  hasAutoEnabledEncryption :: bool
  syncLock :: bool
  outputContext :: sync_context
  trace :: "event list"

text \<open>The constructor (lines 430 to 442) and the field initialisers.\<close>

definition newSynchronizer :: "string \<Rightarrow> string \<Rightarrow> sync" where
  "newSynchronizer appType clientId =
     \<lparr>appType' = appType, clientId' = clientId, state' = ''idle'', cancelling' = False,
      maxResourceSize' = None, downloadQueue' = False, syncTargetIsLocked' = False,
      resourceService' = False, shareService' = False, testingHooks' = [],
      progressReport' = emptyReport, donePaths = [], localFoldersToDelete = [],
      hasAutoEnabledEncryption = False, syncLock = False,
      outputContext = \<lparr>delta = None, other_fields = []\<rparr>, trace = []\<rparr>"

text \<open>
  What may happen to the object while \<open>start\<close> is suspended in an \<open>await\<close>: a caller invokes
  \<open>cancel\<close>, or the lock handler reports that the sync lock could not be refreshed
  (the callback of lines 775 to 779).
\<close>

datatype interrupt = CancelRequested | LockRefreshFailed

text \<open>
  The pure helpers and settings the class reads. They are declared outside the source and are
  taken as parameters: \<open>BaseItem.systemPath\<close>, \<open>pathToId\<close>, \<open>isSystemPath\<close>,
  \<open>unserialize\<close>, \<open>ItemClass.filter\<close>, \<open>Note.mustHandleConflict\<close>,
  \<open>shim.fetchRequestCanBeRetried\<close>, \<open>shim.isTestingEnv\<close>, the two feature flags and
  \<open>syncTargetId\<close> of the file API, the settings \<open>sync.wipeOutFailSafe\<close> and \<open>syncVersion\<close>,
  \<open>Dirnames.Resources\<close>, and the clock \<open>time.unixMs\<close>, read at the current length of
  the trace.
\<close>

record collab =
  systemPath :: "string \<Rightarrow> string"
  pathToId :: "string \<Rightarrow> string"
  isSystemPath :: "string \<Rightarrow> bool"
  unserialize :: "string \<Rightarrow> item"
  itemFilter :: "item \<Rightarrow> item"
  mustHandleConflict :: "item \<Rightarrow> item \<Rightarrow> bool"
  fetchRequestCanBeRetried :: "JoplinError \<Rightarrow> bool"
  isTestingEnv :: bool
  supportsAccurateTimestamp :: bool
  supportsMultiPut :: bool
  syncTargetId :: nat
  wipeOutFailSafe :: nat
  syncVersion :: nat
  dirnamesResources :: string
  unixMs :: "nat \<Rightarrow> nat"

text \<open>
  The result of \<open>BaseItem.itemsThatNeedSync\<close>. Its field \<open>hasMore\<close> is the constructor
  of the sequence of results below: the loop of the upload phase asks again exactly when the
  last result said \<open>hasMore\<close>.
\<close>

record need_sync =
  items :: "item list"
  neverSyncedItemIds :: "string list"

datatype batches = LastBatch need_sync | MoreBatches need_sync batches

text \<open>The result of the \<open>delta\<close> call of the file API, \<open>hasMore\<close> again as the constructor.\<close>

record delta_page =
  page_items :: "remote_item list"
  page_context :: delta_context

datatype pages = LastPage delta_page | MorePages delta_page pages

text \<open>
  The answers of the collaborators. \<open>outcome n c\<close> is the error with which the call \<open>c\<close>,
  made when the trace has length \<open>n\<close>, fails (if it does), \<open>api_outcome\<close> the same for a
  call that reached the file API. The other fields are the values the calls return when they
  do not fail; \<open>interrupts n\<close> is what happens to the object, while \<open>start\<close> is
  suspended, before one of the two flags \<open>cancelling'\<close> and \<open>syncTargetIsLocked'\<close> is read
  at trace length \<open>n\<close>.
\<close>

record env =
  outcome :: "nat \<Rightarrow> call \<Rightarrow> JoplinError option"
  api_outcome :: "nat \<Rightarrow> api_request \<Rightarrow> JoplinError option"
  interrupts :: "nat \<Rightarrow> interrupt option"
  hasActiveLock :: "nat \<Rightarrow> lock_type \<Rightarrow> bool"
  stat_result :: "nat \<Rightarrow> string \<Rightarrow> remote_item option"
  get_result :: "nat \<Rightarrow> string \<Rightarrow> string option"
  localState_result :: "nat \<Rightarrow> string \<Rightarrow> fetch_status"
  fullPath_result :: "nat \<Rightarrow> item \<Rightarrow> item \<times> string"
  needSync_results :: batches
  deletedItems_result :: "deleted_item list"
  delta_results :: pages
  loadItemsByIds_result :: "nat \<Rightarrow> string list \<Rightarrow> item list"
  waitForResult_result :: "nat \<Rightarrow> string \<Rightarrow> JoplinError option \<times> string option"
  noteIds_result :: "nat \<Rightarrow> string \<Rightarrow> string list"
  targetVersion :: "nat option"
  masterKeyCount :: nat

subsection \<open>Programs over the object\<close>

type_synonym 'a prog = "sync \<Rightarrow> (JoplinError + 'a) \<times> sync"

definition ret :: "'a \<Rightarrow> 'a prog" where
  "ret x s = (Inr x, s)"

definition throw :: "JoplinError \<Rightarrow> 'a prog" where
  "throw e s = (Inl e, s)"

definition seq :: "'a prog \<Rightarrow> ('a \<Rightarrow> 'b prog) \<Rightarrow> 'b prog" where
  "seq m f s = (case m s of (Inl e, s') \<Rightarrow> (Inl e, s') | (Inr x, s') \<Rightarrow> f x s')"

definition tryCatch :: "'a prog \<Rightarrow> (JoplinError \<Rightarrow> 'a prog) \<Rightarrow> 'a prog" where
  "tryCatch m h s = (case m s of (Inl e, s') \<Rightarrow> h e s' | (Inr x, s') \<Rightarrow> (Inr x, s'))"

definition modify :: "(sync \<Rightarrow> sync) \<Rightarrow> unit prog" where
  "modify f s = (Inr (), f s)"

definition gets :: "(sync \<Rightarrow> 'a) \<Rightarrow> 'a prog" where
  "gets f s = (Inr (f s), s)"

definition record_event :: "event \<Rightarrow> sync \<Rightarrow> sync" where
  "record_event ev s = s\<lparr>trace := trace s @ [ev]\<rparr>"

definition emit :: "event \<Rightarrow> unit prog" where
  "emit ev = modify (record_event ev)"

text \<open>An awaited call to a collaborator: it is recorded, then it fails or returns.\<close>

definition perform :: "env \<Rightarrow> call \<Rightarrow> unit prog" where
  "perform e c s =
     (case outcome e (length (trace s)) c of
        None \<Rightarrow> (Inr (), record_event (Call c) s)
      | Some err \<Rightarrow> (Inl err, record_event (Call c) s))"

definition ask :: "env \<Rightarrow> call \<Rightarrow> (nat \<Rightarrow> 'a) \<Rightarrow> 'a prog" where
  "ask e c answer s =
     (case outcome e (length (trace s)) c of
        None \<Rightarrow> (Inr (answer (length (trace s))), record_event (Call c) s)
      | Some err \<Rightarrow> (Inl err, record_event (Call c) s))"

definition now :: "collab \<Rightarrow> sync \<Rightarrow> nat" where
  "now c s = unixMs c (length (trace s))"

subsection \<open>The small methods\<close>

fun startsWith :: "string \<Rightarrow> string \<Rightarrow> bool" where
  "startsWith _ [] = True"
| "startsWith [] (y # ys) = False"
| "startsWith (x # xs) (y # ys) = (x = y \<and> startsWith xs ys)"

fun strIncludes :: "string \<Rightarrow> string \<Rightarrow> bool" where
  "strIncludes [] sub = (sub = [])"
| "strIncludes (x # xs) sub = (startsWith (x # xs) sub \<or> strIncludes xs sub)"

text \<open>\<open>isCannotSyncError\<close> (lines 385 to 399), on an error that is not null.\<close>

definition isCannotSyncError :: "JoplinError \<Rightarrow> bool" where
  "isCannotSyncError error =
     (if code error \<in> set [''rejectedByTarget'', ''fileNotFound''] then True
      else if etype error = ''request-timeout'' \<or> strIncludes (message error) ''network timeout''
        then True
      else False)"

text \<open>
  \<open>maxResourceSize\<close> (lines 480 to 483). \<open>Infinity\<close> is \<open>None\<close>; the comparison
  \<open>content.size >= this.maxResourceSize()\<close> is \<open>exceeds\<close>.
\<close>

definition maxResourceSize :: "sync \<Rightarrow> nat option" where
  "maxResourceSize s =
     (if maxResourceSize' s \<noteq> None then maxResourceSize' s
      else if appType' s = ''mobile'' then Some (100 * 1000 * 1000) else None)"

definition exceeds :: "nat \<Rightarrow> nat option \<Rightarrow> bool" where
  "exceeds n limit = (case limit of None \<Rightarrow> False | Some m \<Rightarrow> n \<ge> m)"

text \<open>
  \<open>logSyncOperation\<close> (lines 534 to 574): the line goes to the logger, the counter of the
  action grows, and a copy of the report goes to \<open>onProgress_\<close> and is dispatched.
\<close>

definition logSyncOperation :: "string \<Rightarrow> nat \<Rightarrow> sync \<Rightarrow> sync" where
  "logSyncOperation act actionCount s =
     (let r = progressReport' s;
          r' = r\<lparr>counters := (counters r)(act := counters r act + actionCount),
                 report_state := Some (state' s)\<rparr>;
          s1 = record_event (Log ''info'') s;
          s2 = s1\<lparr>progressReport' := r'\<rparr>;
          s3 = record_event (OnProgress r') s2
      in record_event (Dispatch (SYNC_REPORT_UPDATE r')) s3)"

text \<open>
  \<open>cancel\<close> (lines 604 to 622), up to the promise it returns, which only waits for the state
  to become idle.
\<close>

definition cancel :: "sync \<Rightarrow> sync" where
  "cancel s =
     (if cancelling' s \<or> state' s = ''idle'' then s
      else
        let s1 = (if downloadQueue' s then record_event (Call QueueStop) s else s);
            s2 = logSyncOperation ''cancelling'' 1 s1
        in s2\<lparr>cancelling' := True\<rparr>)"

text \<open>The callback given to \<open>startAutoLockRefresh\<close> (lines 775 to 779).\<close>

definition onLockRefreshError :: "sync \<Rightarrow> sync" where
  "onLockRefreshError s = cancel (record_event (Log ''warn'') s\<lparr>syncTargetIsLocked' := True\<rparr>)"

text \<open>
  The callbacks run while \<open>start\<close> is suspended in an \<open>await\<close>. What they assign is seen
  by \<open>start\<close> at its next read of a flag, so \<open>deliver\<close> is applied before every read of
  \<open>cancelling'\<close> (in \<open>cancelling\<close>) and of \<open>syncTargetIsLocked'\<close> (in
  \<open>awaitApiCall\<close>).
\<close>

definition deliver :: "env \<Rightarrow> sync \<Rightarrow> sync" where
  "deliver e s =
     (case interrupts e (length (trace s)) of
        None \<Rightarrow> s
      | Some CancelRequested \<Rightarrow> cancel s
      | Some LockRefreshFailed \<Rightarrow> onLockRefreshError s)"

text \<open>
  \<open>cancelling\<close> (lines 624 to 626), read after whatever happened to the object since the
  last read.
\<close>

definition cancelling :: "env \<Rightarrow> bool prog" where
  "cancelling e s = (let s' = deliver e s in (Inr (cancelling' s'), s'))"

definition isFullSync :: "string list \<Rightarrow> bool" where
  "isFullSync steps =
     (''update_remote'' \<in> set steps \<and> ''delete_remote'' \<in> set steps \<and> ''delta'' \<in> set steps)"

text \<open>\<open>lockErrorStatus'\<close> (lines 649 to 657).\<close>

definition lockErrorStatus' :: "env \<Rightarrow> string prog" where
  "lockErrorStatus' e =
     seq (ask e (HasActiveLock LockExclusive None) (\<lambda>n. hasActiveLock e n LockExclusive))
       (\<lambda>hasActiveExclusiveLock.
          if hasActiveExclusiveLock then ret ''hasExclusiveLock''
          else
            seq (gets (\<lambda>s. (appType' s, clientId' s)))
              (\<lambda>client. seq (ask e (HasActiveLock LockSync (Some client))
                              (\<lambda>n. hasActiveLock e n LockSync))
              (\<lambda>hasActiveSyncLock.
                 if \<not> hasActiveSyncLock then ret ''syncLockGone'' else ret '''')))"

text \<open>
  \<open>apiCall\<close> (lines 659 to 676). The backend is invoked by recording \<open>Api req\<close>; its answer
  is the error \<open>api_outcome\<close> gives for that moment, or else the value \<open>answer\<close>.
\<close>

definition apiCall :: "env \<Rightarrow> api_request \<Rightarrow> (nat \<Rightarrow> 'a) \<Rightarrow> 'a prog" where
  "apiCall e req answer s =
     (if syncTargetIsLocked' s
      then throw (newJoplinError ''Sync target is locked - aborting API call'' ''lockError'') s
      else
        (case api_outcome e (length (trace s)) req of
           None \<Rightarrow> (Inr (answer (length (trace s))), record_event (Api req) s)
         | Some error \<Rightarrow>
             seq (lockErrorStatus' e)
               (\<lambda>lockStatus.
                  if lockStatus \<noteq> []
                  then throw (newJoplinError
                         (''Sync target lock error: '' @ lockStatus
                            @ ''. Original error was: '' @ message error) ''lockError'')
                  else throw error)
               (record_event (Api req) s)))"

text \<open>
  \<open>await this.apiCall(...)\<close> in \<open>start\<close>: the method runs on the object as the awaits
  before it left it, so a lock that could not be refreshed since the last call makes this
  one fail at once.
\<close>

definition awaitApiCall :: "env \<Rightarrow> api_request \<Rightarrow> (nat \<Rightarrow> 'a) \<Rightarrow> 'a prog" where
  "awaitApiCall e req answer s = apiCall e req answer (deliver e s)"

subsection \<open>Phase 1: upload\<close>

text \<open>
  \<open>attempt\<close> runs a \<open>try\<close> block and hands its outcome to the code after it, for a
  \<open>catch\<close> that reads variables the block assigned.
\<close>

definition attempt :: "'a prog \<Rightarrow> (JoplinError + 'a) prog" where
  "attempt m s = (case m s of (r, s') \<Rightarrow> (Inr r, s'))"

definition pushError :: "report_error \<Rightarrow> sync \<Rightarrow> sync" where
  "pushError err s =
     s\<lparr>progressReport' := (progressReport' s)\<lparr>errors := errors (progressReport' s) @ [err]\<rparr>\<rparr>"

text \<open>\<open>handleCannotSyncItem\<close> (lines 723 to 726); the flag is the item location \<open>remote\<close>.\<close>

definition handleCannotSyncItem :: "env \<Rightarrow> nat \<Rightarrow> item \<Rightarrow> string \<Rightarrow> bool \<Rightarrow> unit prog" where
  "handleCannotSyncItem e target it cannotSyncReason remoteLocation =
     seq (perform e (SaveSyncDisabled target it cannotSyncReason remoteLocation))
       (\<lambda>_. emit (Dispatch SYNC_HAS_DISABLED_SYNC_ITEMS))"

definition resourceRemotePath :: "collab \<Rightarrow> string \<Rightarrow> string" where
  "resourceRemotePath c resourceId = dirnamesResources c @ ''/'' @ resourceId"

definition completeItemProcessing :: "string \<Rightarrow> sync \<Rightarrow> sync" where
  "completeItemProcessing path s = s\<lparr>donePaths := donePaths s @ [path]\<rparr>"

definition getConflictType :: "item \<Rightarrow> string" where
  "getConflictType conflictedItem =
     (if type' conflictedItem = TYPE_NOTE then ''noteConflict''
      else if type' conflictedItem = TYPE_RESOURCE then ''resourceConflict''
      else ''itemConflict'')"

text \<open>
  Lines 819 to 881, after the \<open>stat\<close>: the action for a local item and the remote content
  that was read for it. \<open>Rejected\<close> is the \<open>catch\<close> of lines 859 to 863 up to its
  last two statements, which mark the path as done and \<open>continue\<close>: the loop body below
  executes them. The test \<open>!remoteContent\<close> holds of null and of the empty string.
\<close>

datatype decision = Rejected | Decided string "item option"

definition decideAction ::
  "env \<Rightarrow> collab \<Rightarrow> item \<Rightarrow> remote_item option \<Rightarrow> string \<Rightarrow> decision prog" where
  "decideAction e c local remote path =
     (case remote of
        None \<Rightarrow>
          if sync_time local = 0 then ret (Decided ''createRemote'' None)
          else ret (Decided (getConflictType local) None)
      | Some r \<Rightarrow>
          seq (attempt (awaitApiCall e (ApiGet path) (\<lambda>n. get_result e n path)))
            (\<lambda>got. case got of
               Inl error \<Rightarrow>
                 if code error = ''rejectedByTarget''
                 then seq (modify (pushError (ErrorObject error)))
                        (\<lambda>_. seq (emit (Log ''warn''))
                        (\<lambda>_. ret Rejected))
                 else throw error
             | Inr None \<Rightarrow>
                 throw (newJoplinError
                   (''Got metadata for path but could not fetch content: '' @ path) [])
             | Inr (Some content) \<Rightarrow>
                 if content = []
                 then throw (newJoplinError
                        (''Got metadata for path but could not fetch content: '' @ path) [])
                 else
                   seq (ask e (Unserialize content) (\<lambda>_. unserialize c content))
                     (\<lambda>remoteContent.
                        if updated_time remoteContent > sync_time local
                        then ret (Decided (getConflictType local) (Some remoteContent))
                        else ret (Decided ''updateRemote'' (Some remoteContent)))))"

text \<open>
  Lines 885 to 945: the blob of a resource goes first. The result is the action, cleared
  when the item cannot be synced, and the item that the rest of the iteration calls
  \<open>local\<close> (the resource that \<open>fullPathForSyncUpload\<close> returned, once it has returned).
\<close>

definition blobCannotSync ::
  "env \<Rightarrow> collab \<Rightarrow> item \<Rightarrow> JoplinError \<Rightarrow> (string option \<times> item) prog" where
  "blobCannotSync e c local error =
     (if isCannotSyncError error
      then seq (handleCannotSyncItem e (syncTargetId c) local (message error) False)
             (\<lambda>_. ret (None, local))
      else throw error)"

definition uploadResourceBlob ::
  "env \<Rightarrow> collab \<Rightarrow> item \<Rightarrow> string \<Rightarrow> (string option \<times> item) prog" where
  "uploadResourceBlob e c local act =
     (if type' local = TYPE_RESOURCE \<and> (act = ''createRemote'' \<or> act = ''updateRemote'')
      then
        seq (ask e (ResourceLocalState (id' local)) (\<lambda>n. localState_result e n (id' local)))
          (\<lambda>fetch_status.
             if fetch_status \<noteq> FETCH_STATUS_DONE
             then seq (emit (Log ''info''))
                    (\<lambda>_. seq (handleCannotSyncItem e (syncTargetId c) local
                                ''Trying to upload resource, but only metadata is present.'' False)
                    (\<lambda>_. ret (None, local)))
             else
               seq (attempt (ask e (FullPathForSyncUpload local) (\<lambda>n. fullPath_result e n local)))
                 (\<lambda>located. case located of
                    Inl error \<Rightarrow> blobCannotSync e c local error
                  | Inr (resource, localResourceContentPath) \<Rightarrow>
                      seq (if size' resource \<ge> 10 * 1000 * 1000 then emit (Log ''warn'')
                           else ret ())
                        (\<lambda>_. seq (attempt (awaitApiCall e
                                     (ApiPut (resourceRemotePath c (id' local))
                                        localResourceContentPath (share_id resource))
                                     (\<lambda>_. ())))
                        (\<lambda>put. case put of
                           Inl error \<Rightarrow> blobCannotSync e c resource error
                         | Inr _ \<Rightarrow> ret (Some act, resource)))))
      else ret (Some act, local))"

text \<open>
  \<open>local = remoteContent\<close> under \<open>if (remote)\<close>: the content was read whenever the remote
  exists; reading a field of a null content would raise a \<open>TypeError\<close>.
\<close>

definition contentOf :: "item option \<Rightarrow> item prog" where
  "contentOf remoteContent =
     (case remoteContent of
        None \<Rightarrow> throw (newJoplinError ''TypeError'' [])
      | Some content \<Rightarrow> ret content)"

text \<open>Lines 947 to 982: the metadata, then the sync time.\<close>

definition uploadMetadata :: "env \<Rightarrow> collab \<Rightarrow> item \<Rightarrow> string \<Rightarrow> unit prog" where
  "uploadMetadata e c local path =
     seq (attempt
            (seq (gets testingHooks')
               (\<lambda>hooks.
                  if ''notesRejectedByTarget'' \<in> set hooks \<and> type' local = TYPE_NOTE
                  then throw (newJoplinError ''Testing rejectedByTarget'' ''rejectedByTarget'')
                  else perform e (SerializeAndUploadItem path local))))
       (\<lambda>uploaded. seq (case uploaded of
                         Inl error \<Rightarrow>
                           if code error = ''rejectedByTarget''
                           then seq (handleCannotSyncItem e (syncTargetId c) local
                                       (message error) False)
                                  (\<lambda>_. ret False)
                           else throw error
                       | Inr _ \<Rightarrow> ret True)
       (\<lambda>canSync.
          if canSync then perform e (SaveSyncTime (syncTargetId c) local (updated_time local))
          else ret ()))"

text \<open>Lines 1032 to 1050: what happens to the local content after a note or resource conflict.\<close>

definition takeRemote ::
  "env \<Rightarrow> collab \<Rightarrow> item \<Rightarrow> remote_item option \<Rightarrow> item option \<Rightarrow> bool \<Rightarrow> unit prog" where
  "takeRemote e c local remote remoteContent signalEncrypted =
     (if remote \<noteq> None
      then seq (contentOf remoteContent)
             (\<lambda>content. seq (gets (now c))
             (\<lambda>time. seq (perform e (ItemSave content False time))
             (\<lambda>_. if signalEncrypted \<and> encryption_applied content
                   then emit (Dispatch SYNC_GOT_ENCRYPTED_ITEM) else ret ())))
      else perform e (ItemDelete (id' local) True))"

text \<open>Lines 947 to 1050: the chain of \<open>if\<close>s on the action.\<close>

definition applyUploadAction ::
  "env \<Rightarrow> collab \<Rightarrow> string option \<Rightarrow> item \<Rightarrow> remote_item option \<Rightarrow> item option \<Rightarrow> string
     \<Rightarrow> unit prog" where
  "applyUploadAction e c act local remote remoteContent path =
     seq (if act = Some ''createRemote'' \<or> act = Some ''updateRemote''
          then uploadMetadata e c local path
          else if act = Some ''itemConflict''
          then takeRemote e c local remote remoteContent False
          else if act = Some ''noteConflict''
          then (if (case remoteContent of
                      None \<Rightarrow> True
                    | Some content \<Rightarrow> mustHandleConflict c local content)
                then perform e (CreateConflictNote local) else ret ())
          else if act = Some ''resourceConflict''
          then seq (perform e (CreateConflictResourceNote local))
                 (\<lambda>_. if remote \<noteq> None
                       then perform e (SetLocalState (id' local) FETCH_STATUS_IDLE)
                       else ret ())
          else ret ())
       (\<lambda>_. if act \<in> set [Some ''noteConflict'', Some ''resourceConflict'']
             then takeRemote e c local remote remoteContent True
             else ret ())"

text \<open>Lines 885 to 1050: what is done for the action that was decided.\<close>

definition uploadDecided ::
  "env \<Rightarrow> collab \<Rightarrow> item \<Rightarrow> string \<Rightarrow> remote_item option \<Rightarrow> item option \<Rightarrow> string
     \<Rightarrow> unit prog" where
  "uploadDecided e c local act remote remoteContent path =
     seq (uploadResourceBlob e c local act)
       (\<lambda>blob. applyUploadAction e c (fst blob) (snd blob) remote remoteContent path)"

definition processingPathTwice :: "string \<Rightarrow> JoplinError" where
  "processingPathTwice path =
     newJoplinError
       (''Processing a path that has already been done: '' @ path
          @ ''. sync_time was not updated? Remote item has an updated_time in the future?'')
       ''processingPathTwice''"

text \<open>Lines 819 to 821: the remote item, not asked for when the item was never synced.\<close>

definition statRemote :: "env \<Rightarrow> string list \<Rightarrow> item \<Rightarrow> string \<Rightarrow> remote_item option prog" where
  "statRemote e neverSynced local path =
     (if id' local \<in> set neverSynced then ret None
      else awaitApiCall e (ApiStat path) (\<lambda>n. stat_result e n path))"

text \<open>
  What follows the safety check in the body of the loop (lines 819 to 1052): the \<open>stat\<close>,
  the decision, what is done for it, and the path added to \<open>donePaths\<close>.
\<close>

definition syncLocalItem ::
  "env \<Rightarrow> collab \<Rightarrow> string list \<Rightarrow> item \<Rightarrow> string \<Rightarrow> unit prog" where
  "syncLocalItem e c neverSynced local path =
     seq (seq (statRemote e neverSynced local path)
            (\<lambda>remote. seq (decideAction e c local remote path)
            (\<lambda>d. case d of
               Rejected \<Rightarrow> ret ()
             | Decided act remoteContent \<Rightarrow>
                 seq (modify (logSyncOperation act 1))
                   (\<lambda>_. uploadDecided e c local act remote remoteContent path))))
       (\<lambda>_. modify (completeItemProcessing path))"

text \<open>The body of the loop over the items of a batch (lines 806 to 1052).\<close>

definition uploadItem :: "env \<Rightarrow> collab \<Rightarrow> string list \<Rightarrow> item \<Rightarrow> unit prog" where
  "uploadItem e c neverSynced local =
     seq (gets donePaths)
       (\<lambda>done.
          if systemPath c (id' local) \<in> set done
          then throw (processingPathTwice (systemPath c (id' local)))
          else syncLocalItem e c neverSynced local (systemPath c (id' local)))"

text \<open>The loop of lines 803 to 1053.\<close>

primrec uploadItems :: "env \<Rightarrow> collab \<Rightarrow> string list \<Rightarrow> item list \<Rightarrow> unit prog" where
  "uploadItems e c neverSynced [] = ret ()"
| "uploadItems e c neverSynced (local # rest) =
     seq (cancelling e)
       (\<lambda>cancelled. if cancelled then ret ()
          else seq (uploadItem e c neverSynced local) (\<lambda>_. uploadItems e c neverSynced rest))"

text \<open>One turn of the loop of lines 795 to 1056, up to the test of \<open>hasMore\<close>.\<close>

definition uploadBatch :: "env \<Rightarrow> collab \<Rightarrow> need_sync \<Rightarrow> unit prog" where
  "uploadBatch e c result =
     seq (perform e (ItemsThatNeedSync (syncTargetId c)))
       (\<lambda>_. seq (perform e (PreUploadItems
                    (filter (\<lambda>it. id' it \<in> set (neverSyncedItemIds result)) (items result))))
       (\<lambda>_. uploadItems e c (neverSyncedItemIds result) (items result)))"

primrec uploadLoop :: "env \<Rightarrow> collab \<Rightarrow> batches \<Rightarrow> unit prog" where
  "uploadLoop e c (LastBatch result) =
     seq (cancelling e) (\<lambda>cancelled. if cancelled then ret () else uploadBatch e c result)"
| "uploadLoop e c (MoreBatches result later) =
     seq (cancelling e)
       (\<lambda>cancelled. if cancelled then ret ()
          else seq (uploadBatch e c result) (\<lambda>_. uploadLoop e c later))"

definition uploadPhase :: "env \<Rightarrow> collab \<Rightarrow> string list \<Rightarrow> unit prog" where
  "uploadPhase e c syncSteps =
     (if ''update_remote'' \<in> set syncSteps
      then seq (modify (\<lambda>s. s\<lparr>donePaths := []\<rparr>)) (\<lambda>_. uploadLoop e c (needSync_results e))
      else ret ())"

subsection \<open>Phase 2: delete remote\<close>

text \<open>The body of the loop of lines 1067 to 1081.\<close>

definition deleteRemoteItem :: "env \<Rightarrow> collab \<Rightarrow> deleted_item \<Rightarrow> unit prog" where
  "deleteRemoteItem e c it =
     seq (modify (logSyncOperation ''deleteRemote'' 1))
       (\<lambda>_. seq (awaitApiCall e (ApiDelete (systemPath c (item_id it))) (\<lambda>_. ()))
       (\<lambda>_. seq (if item_type it = TYPE_RESOURCE
                  then awaitApiCall e (ApiDelete (resourceRemotePath c (item_id it))) (\<lambda>_. ())
                  else ret ())
       (\<lambda>_. perform e (RemoteDeletedItem (syncTargetId c) (item_id it)))))"

primrec deleteRemoteItems :: "env \<Rightarrow> collab \<Rightarrow> deleted_item list \<Rightarrow> unit prog" where
  "deleteRemoteItems e c [] = ret ()"
| "deleteRemoteItems e c (it # rest) =
     seq (cancelling e)
       (\<lambda>cancelled. if cancelled then ret ()
          else seq (deleteRemoteItem e c it) (\<lambda>_. deleteRemoteItems e c rest))"

definition deleteRemotePhase :: "env \<Rightarrow> collab \<Rightarrow> string list \<Rightarrow> unit prog" where
  "deleteRemotePhase e c syncSteps =
     (if ''delete_remote'' \<in> set syncSteps
      then seq (ask e (DeletedItems (syncTargetId c)) (\<lambda>_. deletedItems_result e))
             (deleteRemoteItems e c)
      else ret ())"

subsection \<open>Phase 3: delta\<close>

text \<open>The first loop over the remotes of a page (lines 1132 to 1146).\<close>

definition needsToDownload :: "collab \<Rightarrow> item list \<Rightarrow> remote_item \<Rightarrow> bool" where
  "needsToDownload c locals remote =
     (if supportsAccurateTimestamp c
      then (case find (\<lambda>l. id' l = pathToId c (r_path remote)) locals of
              None \<Rightarrow> True
            | Some local \<Rightarrow> \<not> (Some (updated_time local) = r_jop_updated_time remote))
      else True)"

primrec queueDownloads :: "env \<Rightarrow> collab \<Rightarrow> item list \<Rightarrow> remote_item list \<Rightarrow> unit prog" where
  "queueDownloads e c locals [] = ret ()"
| "queueDownloads e c locals (remote # rest) =
     seq (cancelling e)
       (\<lambda>cancelled. if cancelled then ret ()
          else seq (if needsToDownload c locals remote then emit (QueuePush (r_path remote))
                    else ret ())
                 (\<lambda>_. queueDownloads e c locals rest))"

text \<open>
  \<open>loadContent\<close> (lines 1159 to 1164). The test \<open>!task.result\<close> holds of null and of the
  empty string.
\<close>

definition loadContent :: "env \<Rightarrow> collab \<Rightarrow> string \<Rightarrow> item option prog" where
  "loadContent e c path =
     seq (ask e (QueueWaitForResult path) (\<lambda>n. waitForResult_result e n path))
       (\<lambda>task. case fst task of
          Some error \<Rightarrow> throw error
        | None \<Rightarrow>
            (case snd task of
               None \<Rightarrow> ret None
             | Some result \<Rightarrow>
                 if result = [] then ret None
                 else seq (ask e (Unserialize result) (\<lambda>_. unserialize c result))
                        (\<lambda>content. ret (Some content))))"

text \<open>
  The \<open>try\<close> block of lines 1174 to 1199: the action, the local item after
  \<open>ItemClass.filter\<close>, and the content that was loaded.
\<close>

definition chooseLocalAction ::
  "env \<Rightarrow> collab \<Rightarrow> item option \<Rightarrow> remote_item
     \<Rightarrow> (string option \<times> item option \<times> item option) prog" where
  "chooseLocalAction e c found remote =
     (case found of
        None \<Rightarrow>
          if \<not> r_isDeleted remote
          then seq (loadContent e c (r_path remote))
                 (\<lambda>content. ret (Some ''createLocal'', None, content))
          else ret (None, None, None)
      | Some unfiltered \<Rightarrow>
          let local = itemFilter c unfiltered in
          if r_isDeleted remote then ret (Some ''deleteLocal'', Some local, None)
          else if supportsAccurateTimestamp c
                  \<and> r_jop_updated_time remote = Some (updated_time local)
          then ret (None, Some local, None)
          else seq (loadContent e c (r_path remote))
                 (\<lambda>content.
                    if (case content of
                          None \<Rightarrow> False
                        | Some ct \<Rightarrow> updated_time ct > updated_time local)
                    then ret (Some ''updateLocal'', Some local, content)
                    else ret (None, Some local, content)))"

definition digit :: "nat \<Rightarrow> char" where
  "digit n = ''0123456789'' ! (n mod 10)"

fun showNat :: "nat \<Rightarrow> string" where
  "showNat n = (if n < 10 then [digit n] else showNat (n div 10) @ [digit (n mod 10)])"

definition showLimit :: "nat option \<Rightarrow> string" where
  "showLimit limit = (case limit of None \<Rightarrow> ''Infinity'' | Some n \<Rightarrow> showNat n)"

definition sizeLimitReason :: "item \<Rightarrow> nat option \<Rightarrow> string" where
  "sizeLimitReason content limit =
     ''File \"'' @ title content @ ''\" is larger than allowed '' @ showLimit limit
       @ '' bytes. Beyond this limit, the mobile app would crash.''"

text \<open>Lines 1255 to 1262.\<close>

definition autoEnableEncryption :: "env \<Rightarrow> item \<Rightarrow> nat \<Rightarrow> unit prog" where
  "autoEnableEncryption e content masterKeysBefore =
     seq (gets hasAutoEnabledEncryption)
       (\<lambda>already.
          if \<not> already \<and> type' content = TYPE_MASTER_KEY \<and> masterKeysBefore = 0
          then seq (modify (\<lambda>s. s\<lparr>hasAutoEnabledEncryption := True\<rparr>))
                 (\<lambda>_. seq (emit (Log ''info''))
                 (\<lambda>_. seq (emit (Log ''info''))
                 (\<lambda>_. seq (perform e (EnableEncryption content))
                 (\<lambda>_. seq (perform e LoadMasterKeysFromSettings)
                 (\<lambda>_. emit (Log ''info''))))))
          else ret ())"

text \<open>Lines 1229 and 1230.\<close>

definition backfillTimes :: "item \<Rightarrow> item" where
  "backfillTimes content =
     (let withUpdated = (if user_updated_time content = 0
                         then content\<lparr>user_updated_time := updated_time content\<rparr>
                         else content)
      in if user_created_time withUpdated = 0
         then withUpdated\<lparr>user_created_time := created_time withUpdated\<rparr>
         else withUpdated)"

text \<open>
  Lines 1217 to 1264, for a content that is not null: the branch of \<open>createLocal\<close> and
  \<open>updateLocal\<close>.
\<close>

definition saveLocal :: "env \<Rightarrow> collab \<Rightarrow> string \<Rightarrow> item \<Rightarrow> nat \<Rightarrow> unit prog" where
  "saveLocal e c act loaded masterKeysBefore =
     (let content = backfillTimes (itemFilter c loaded);
          creatingOrUpdatingResource =
            (type' content = TYPE_RESOURCE \<and> (act = ''createLocal'' \<or> act = ''updateLocal''))
      in seq (gets (now c))
           (\<lambda>nextQueriesTime. seq (gets maxResourceSize)
           (\<lambda>limit.
              if creatingOrUpdatingResource \<and> exceeds (size' content) limit
              then handleCannotSyncItem e (syncTargetId c) content
                     (sizeLimitReason content limit) True
              else
                seq (if creatingOrUpdatingResource
                     then perform e (ResourceLocalStateSave (id' content) FETCH_STATUS_IDLE)
                     else ret ())
                  (\<lambda>_. seq (perform e (ItemSave content (act = ''createLocal'') nextQueriesTime))
                  (\<lambda>_. seq (if creatingOrUpdatingResource
                             then emit (Dispatch (SYNC_CREATED_OR_UPDATED_RESOURCE (id' content)))
                             else ret ())
                  (\<lambda>_. seq (autoEnableEncryption e content masterKeysBefore)
                  (\<lambda>_. if encryption_applied content
                        then emit (Dispatch SYNC_GOT_ENCRYPTED_ITEM)
                        else ret ())))))))"

text \<open>Lines 1265 to 1273: the branch of \<open>deleteLocal\<close>.\<close>

definition deleteLocal :: "env \<Rightarrow> item option \<Rightarrow> unit prog" where
  "deleteLocal e found =
     (case found of
        None \<Rightarrow> throw (newJoplinError ''TypeError'' [])
      | Some local \<Rightarrow>
          if type' local = TYPE_FOLDER
          then modify (\<lambda>s. s\<lparr>localFoldersToDelete := localFoldersToDelete s @ [local]\<rparr>)
          else perform e (ItemDelete (id' local) False))"

text \<open>Lines 1211 to 1273, from the testing hook on.\<close>

definition applyLocalAction ::
  "env \<Rightarrow> collab \<Rightarrow> nat \<Rightarrow> string option \<times> item option \<times> item option \<Rightarrow> unit prog" where
  "applyLocalAction e c masterKeysBefore chosen =
     (let local = fst (snd chosen);
          content = snd (snd chosen)
      in seq (gets testingHooks')
           (\<lambda>hooks.
              case (if ''skipRevisions'' \<in> set hooks
                       \<and> (case content of None \<Rightarrow> False | Some ct \<Rightarrow> type' ct = TYPE_REVISION)
                    then None else fst chosen) of
                None \<Rightarrow> ret ()
              | Some a \<Rightarrow>
                  seq (modify (logSyncOperation a 1))
                    (\<lambda>_. if a = ''createLocal'' \<or> a = ''updateLocal''
                          then (case content of
                                  None \<Rightarrow> emit (Log ''warn'')
                                | Some loaded \<Rightarrow> saveLocal e c a loaded masterKeysBefore)
                          else if a = ''deleteLocal'' then deleteLocal e local
                          else ret ())))"

text \<open>The body of the second loop over the remotes of a page (lines 1154 to 1273).\<close>

definition deltaItem :: "env \<Rightarrow> collab \<Rightarrow> item list \<Rightarrow> nat \<Rightarrow> remote_item \<Rightarrow> unit prog" where
  "deltaItem e c locals masterKeysBefore remote =
     seq (modify (logSyncOperation ''fetchingProcessed'' 1))
       (\<lambda>_. if \<not> isSystemPath c (r_path remote) then ret ()
             else
               seq (attempt (chooseLocalAction e c
                      (find (\<lambda>l. id' l = pathToId c (r_path remote)) locals) remote))
                 (\<lambda>chosen. case chosen of
                    Inl error \<Rightarrow>
                      if code error = ''rejectedByTarget''
                      then seq (modify (pushError (ErrorObject error)))
                             (\<lambda>_. emit (Log ''warn''))
                      else throw (error\<lparr>message :=
                             ''On file '' @ r_path remote @ '': '' @ message error\<rparr>)
                  | Inr triple \<Rightarrow> applyLocalAction e c masterKeysBefore triple))"

text \<open>The loop of lines 1148 to 1274; its result is \<open>hasCancelled\<close>.\<close>

primrec deltaItems ::
  "env \<Rightarrow> collab \<Rightarrow> item list \<Rightarrow> nat \<Rightarrow> remote_item list \<Rightarrow> bool prog" where
  "deltaItems e c locals masterKeysBefore [] = ret False"
| "deltaItems e c locals masterKeysBefore (remote # rest) =
     seq (cancelling e)
       (\<lambda>cancelled. seq (gets testingHooks')
       (\<lambda>hooks.
          if cancelled \<or> ''cancelDeltaLoop2'' \<in> set hooks then ret True
          else seq (deltaItem e c locals masterKeysBefore remote)
                 (\<lambda>_. deltaItems e c locals masterKeysBefore rest)))"

text \<open>
  Lines 1108 to 1274: the \<open>delta\<close> call, which answers with the page \<open>listResult\<close> when it
  does not fail, and the two loops over its items.
\<close>

definition deltaPage ::
  "env \<Rightarrow> collab \<Rightarrow> nat \<Rightarrow> delta_context option \<Rightarrow> delta_page \<Rightarrow> bool prog" where
  "deltaPage e c masterKeysBefore context listResult =
     seq (awaitApiCall e (ApiDelta context (wipeOutFailSafe c)) (\<lambda>_. listResult))
       (\<lambda>page.
          let remotes = page_items page;
              remoteIds = map (\<lambda>r. pathToId c (r_path r)) remotes
          in seq (modify (logSyncOperation ''fetchingTotal'' (length remotes)))
               (\<lambda>_. seq (ask e (LoadItemsByIds remoteIds)
                            (\<lambda>n. loadItemsByIds_result e n remoteIds))
               (\<lambda>locals. seq (queueDownloads e c locals remotes)
               (\<lambda>_. deltaItems e c locals masterKeysBefore remotes))))"

text \<open>Lines 1282 to 1289.\<close>

definition deltaToSave :: "delta_context \<Rightarrow> delta_context" where
  "deltaToSave context = context\<lparr>statsCache := None, statIdsCache := None\<rparr>"

definition saveContext :: "options \<Rightarrow> delta_page \<Rightarrow> unit prog" where
  "saveContext opts listResult =
     (if opt_saveContextHandler opts
      then emit (SaveContext (deltaToSave (page_context listResult)))
      else ret ())"

text \<open>
  The loop of lines 1105 to 1297; its result is \<open>newDeltaContext\<close>. After a page that set
  \<open>hasCancelled\<close> the loop comes back to its head, reads \<open>cancelling\<close> and leaves.
\<close>

primrec deltaLoop ::
  "env \<Rightarrow> collab \<Rightarrow> options \<Rightarrow> nat \<Rightarrow> pages \<Rightarrow> delta_context option
     \<Rightarrow> delta_context option prog" where
  "deltaLoop e c opts masterKeysBefore (LastPage listResult) =
     (\<lambda>context.
        seq (cancelling e)
          (\<lambda>cancelled. if cancelled then ret None
             else seq (deltaPage e c masterKeysBefore context listResult)
                    (\<lambda>hasCancelled.
                       if \<not> hasCancelled
                       then seq (saveContext opts listResult)
                              (\<lambda>_. ret (Some (page_context listResult)))
                       else seq (cancelling e) (\<lambda>_. ret None))))"
| "deltaLoop e c opts masterKeysBefore (MorePages listResult later) =
     (\<lambda>context.
        seq (cancelling e)
          (\<lambda>cancelled. if cancelled then ret None
             else seq (deltaPage e c masterKeysBefore context listResult)
                    (\<lambda>hasCancelled.
                       if \<not> hasCancelled
                       then seq (saveContext opts listResult)
                              (\<lambda>_. deltaLoop e c opts masterKeysBefore later
                                      (Some (page_context listResult)))
                       else seq (cancelling e) (\<lambda>_. ret None))))"

text \<open>The loop of lines 1310 to 1318.\<close>

primrec deleteFolders :: "env \<Rightarrow> item list \<Rightarrow> unit prog" where
  "deleteFolders e [] = ret ()"
| "deleteFolders e (it # rest) =
     seq (ask e (FolderNoteIds (id' it)) (\<lambda>n. noteIds_result e n (id' it)))
       (\<lambda>noteIds. seq (if noteIds \<noteq> [] then perform e (MarkNotesAsConflict (id' it))
                        else ret ())
       (\<lambda>_. seq (perform e (FolderDelete (id' it)))
       (\<lambda>_. deleteFolders e rest)))"

text \<open>\<open>outputContext.delta = newDeltaContext ? newDeltaContext : lastContext.delta\<close>.\<close>

definition recordDelta :: "delta_context option \<Rightarrow> sync_context \<Rightarrow> sync \<Rightarrow> sync" where
  "recordDelta newDeltaContext lastContext s =
     s\<lparr>outputContext := (outputContext s)
          \<lparr>delta := (if newDeltaContext \<noteq> None then newDeltaContext
                     else delta lastContext)\<rparr>\<rparr>"

text \<open>Lines 1091 to 1324.\<close>

definition deltaPhase ::
  "env \<Rightarrow> collab \<Rightarrow> options \<Rightarrow> string list \<Rightarrow> sync_context \<Rightarrow> nat \<Rightarrow> unit prog" where
  "deltaPhase e c opts syncSteps lastContext masterKeysBefore =
     seq (seq (gets downloadQueue')
            (\<lambda>queue. if queue then perform e QueueStop else ret ()))
       (\<lambda>_. seq (modify (\<lambda>s. record_event NewQueue (s\<lparr>downloadQueue' := True\<rparr>)))
       (\<lambda>_. if ''delta'' \<in> set syncSteps
             then
               seq (modify (\<lambda>s. s\<lparr>localFoldersToDelete := []\<rparr>))
                 (\<lambda>_. seq (deltaLoop e c opts masterKeysBefore (delta_results e)
                              (delta lastContext))
                 (\<lambda>newDeltaContext. seq (modify (recordDelta newDeltaContext lastContext))
                 (\<lambda>_. seq (cancelling e)
                 (\<lambda>cancelled. seq (if \<not> cancelled
                                    then seq (gets localFoldersToDelete) (deleteFolders e)
                                    else ret ())
                 (\<lambda>_. seq (cancelling e)
                 (\<lambda>cancelled. if \<not> cancelled then perform e DeleteOrphanSyncItems
                               else ret ()))))))
             else ret ()))"

subsection \<open>\<open>start\<close>\<close>

text \<open>The \<open>try\<close> block of lines 753 to 1324.\<close>

definition checkTarget :: "env \<Rightarrow> collab \<Rightarrow> unit prog" where
  "checkTarget e c =
     tryCatch
       (seq (ask e CheckCanSync (\<lambda>_. targetVersion e))
          (\<lambda>version. seq (emit (Log ''info''))
          (\<lambda>_. if version = None \<or> version = Some 0
                then seq (emit (Log ''info'')) (\<lambda>_. perform e (Upgrade (syncVersion c)))
                else ret ())))
       (\<lambda>error. seq (if code error = ''outdatedSyncTarget'' then emit SetUpgradeState
                      else ret ())
                 (\<lambda>_. throw error))"

definition acquireSyncLock :: "env \<Rightarrow> unit prog" where
  "acquireSyncLock e =
     seq (gets (\<lambda>s. AcquireLock LockSync (appType' s) (clientId' s)))
       (\<lambda>acquireLock. seq (perform e acquireLock)
       (\<lambda>_. seq (modify (\<lambda>s. s\<lparr>syncLock := True\<rparr>))
       (\<lambda>_. emit StartAutoLockRefresh)))"

definition phases ::
  "env \<Rightarrow> collab \<Rightarrow> options \<Rightarrow> string list \<Rightarrow> sync_context \<Rightarrow> nat \<Rightarrow> unit prog" where
  "phases e c opts syncSteps lastContext masterKeysBefore =
     seq (perform e ApiInitialize)
       (\<lambda>_. seq (emit SetTempDirName)
       (\<lambda>_. seq (checkTarget e c)
       (\<lambda>_. seq (acquireSyncLock e)
       (\<lambda>_. seq (uploadPhase e c syncSteps)
       (\<lambda>_. seq (deleteRemotePhase e c syncSteps)
       (\<lambda>_. deltaPhase e c opts syncSteps lastContext masterKeysBefore))))))"

text \<open>
  The \<open>catch\<close> block of lines 1325 to 1352; its result is \<open>errorToThrow\<close>. The second line
  that logs \<open>error.details\<close> is not kept.
\<close>

definition handleError :: "collab \<Rightarrow> bool \<Rightarrow> JoplinError \<Rightarrow> JoplinError option prog" where
  "handleError c throwOnError error =
     (if throwOnError then ret (Some error)
      else if code error \<in> set [''cannotEncryptEncrypted'', ''noActiveMasterKey'',
                ''processingPathTwice'', ''failSafe'', ''lockError'', ''outdatedSyncTarget'']
      then seq (emit (Log ''info''))
             (\<lambda>_. seq (if code error = ''failSafe'' \<or> code error = ''lockError''
                        then seq (if \<not> isTestingEnv c
                                  then modify (pushError (ErrorMessage (message error)))
                                  else ret ())
                               (\<lambda>_. emit LogLastRequests)
                        else ret ())
             (\<lambda>_. ret None))
      else if code error = ''unknownItemType''
      then seq (modify (pushError (ErrorMessage
                  ''Unknown item type downloaded - please upgrade Joplin to the latest version'')))
             (\<lambda>_. seq (emit (Log ''error'')) (\<lambda>_. ret None))
      else seq (emit (Log ''error''))
             (\<lambda>_. seq (if \<not> fetchRequestCanBeRetried c error
                        then seq (modify (pushError (ErrorObject error)))
                               (\<lambda>_. emit LogLastRequests)
                        else ret ())
             (\<lambda>_. ret None)))"

definition reportHasErrors :: "report \<Rightarrow> bool" where
  "reportHasErrors r = (errors r \<noteq> [])"

text \<open>
  Lines 1354 to 1395: what follows the \<open>try\<close> statement, first the lock (lines 1354 to
  1357), then the rest.
\<close>

definition releaseSyncLock :: "env \<Rightarrow> unit prog" where
  "releaseSyncLock e =
     seq (gets syncLock)
       (\<lambda>locked.
          if locked
          then seq (emit StopAutoLockRefresh)
                 (\<lambda>_. seq (gets (\<lambda>s. ReleaseLock LockSync (appType' s) (clientId' s)))
                 (perform e))
          else ret ())"

definition complete ::
  "env \<Rightarrow> collab \<Rightarrow> string list \<Rightarrow> JoplinError option \<Rightarrow> sync_context prog" where
  "complete e c syncSteps errorToThrow =
     seq (modify (\<lambda>s. s\<lparr>syncTargetIsLocked' := False\<rparr>))
       (\<lambda>_. seq (cancelling e)
       (\<lambda>cancelled. seq (if cancelled
                          then seq (emit (Log ''info''))
                                 (\<lambda>_. modify (\<lambda>s. s\<lparr>cancelling' := False\<rparr>))
                          else ret ())
       (\<lambda>_. seq (seq (gets shareService')
                    (\<lambda>service. if service
                       then tryCatch (perform e ShareMaintenance) (\<lambda>error. emit (Log ''error''))
                       else ret ()))
       (\<lambda>_. seq (modify (\<lambda>s. s\<lparr>progressReport' :=
                     (progressReport' s)\<lparr>completedTime := Some (now c s)\<rparr>\<rparr>))
       (\<lambda>_. seq (modify (logSyncOperation ''finished'' 1))
       (\<lambda>_. seq (perform e LogSyncSummary)
       (\<lambda>_. seq (seq (gets (\<lambda>s. reportHasErrors (progressReport' s)))
                    (\<lambda>withErrors. emit (Emit ''syncComplete'' withErrors)))
       (\<lambda>_. seq (modify (\<lambda>s. s\<lparr>progressReport' := emptyReport\<rparr>))
       (\<lambda>_. seq (emit (Dispatch (SYNC_COMPLETED (isFullSync syncSteps))))
       (\<lambda>_. seq (modify (\<lambda>s. s\<lparr>state' := ''idle''\<rparr>))
       (\<lambda>_. case errorToThrow of
               Some error \<Rightarrow> throw error
             | None \<Rightarrow> gets outputContext)))))))))))"

definition finish ::
  "env \<Rightarrow> collab \<Rightarrow> string list \<Rightarrow> JoplinError option \<Rightarrow> sync_context prog" where
  "finish e c syncSteps errorToThrow =
     seq (releaseSyncLock e) (\<lambda>_. complete e c syncSteps errorToThrow)"

text \<open>Lines 686 to 692: the guard, and the step to \<open>in_progress\<close>.\<close>

definition alreadyStarted :: "sync \<Rightarrow> JoplinError" where
  "alreadyStarted s =
     newJoplinError (''Synchronisation is already in progress. State: '' @ state' s)
       ''alreadyStarted''"

definition enter :: "unit prog" where
  "enter s =
     (if state' s \<noteq> ''idle'' then throw (alreadyStarted s) s
      else ret () (s\<lparr>state' := ''in_progress''\<rparr>))"

text \<open>Lines 694 to 721: the options and the first announcements.\<close>

definition lastContextOf :: "options \<Rightarrow> sync_context" where
  "lastContextOf opts =
     (case opt_context opts of
        Some context \<Rightarrow> context
      | None \<Rightarrow> \<lparr>delta = None, other_fields = []\<rparr>)"

definition syncStepsOf :: "options \<Rightarrow> string list" where
  "syncStepsOf opts =
     (case opt_syncSteps opts of
        Some steps \<Rightarrow> steps
      | None \<Rightarrow> [''update_remote'', ''delete_remote'', ''delta''])"

definition announce :: "env \<Rightarrow> collab \<Rightarrow> options \<Rightarrow> nat prog" where
  "announce e c opts =
     seq (modify (\<lambda>s. s\<lparr>progressReport' := emptyReport, syncTargetIsLocked' := False,
                        cancelling' := False\<rparr>))
       (\<lambda>_. seq (ask e MasterKeyCount (\<lambda>_. masterKeyCount e))
       (\<lambda>masterKeysBefore.
          seq (modify (\<lambda>s. s\<lparr>hasAutoEnabledEncryption := False,
                             outputContext := lastContextOf opts, syncLock := False\<rparr>))
       (\<lambda>_. seq (modify (\<lambda>s. s\<lparr>progressReport' :=
                     (progressReport' s)\<lparr>startTime := Some (now c s)\<rparr>\<rparr>))
       (\<lambda>_. seq (emit (Dispatch SYNC_STARTED))
       (\<lambda>_. seq (emit (Emit ''syncStart'' False))
       (\<lambda>_. seq (modify (logSyncOperation ''starting'' 1))
       (\<lambda>_. ret masterKeysBefore)))))))"

text \<open>Lines 735 to 746.\<close>

definition prepare :: "env \<Rightarrow> unit prog" where
  "prepare e =
     seq (seq (gets resourceService')
            (\<lambda>service. if service
               then tryCatch (seq (emit (Log ''info'')) (\<lambda>_. perform e IndexNoteResources))
                      (\<lambda>error. emit (Log ''error''))
               else ret ()))
       (\<lambda>_. perform e UpdateAllShareIds)"

text \<open>The body of \<open>start\<close> after the guard, and \<open>start\<close> (lines 683 to 1396).\<close>

definition run :: "env \<Rightarrow> collab \<Rightarrow> options \<Rightarrow> sync_context prog" where
  "run e c opts =
     seq (announce e c opts)
       (\<lambda>masterKeysBefore. seq (prepare e)
       (\<lambda>_. seq (attempt (phases e c opts (syncStepsOf opts) (lastContextOf opts)
                    masterKeysBefore))
       (\<lambda>tried. seq (case tried of
                       Inl error \<Rightarrow> handleError c (opt_throwOnError opts) error
                     | Inr _ \<Rightarrow> ret None)
       (\<lambda>errorToThrow. finish e c (syncStepsOf opts) errorToThrow))))"

definition start :: "env \<Rightarrow> collab \<Rightarrow> options \<Rightarrow> sync_context prog" where
  "start e c opts = seq enter (\<lambda>_. run e c opts)"

subsection \<open>Reading the trace\<close>

text \<open>What a step added to the trace, and the contexts given to \<open>saveContextHandler\<close>.\<close>

definition newEvents :: "sync \<Rightarrow> sync \<Rightarrow> event list" where
  "newEvents s s' = drop (length (trace s)) (trace s')"

fun savedContexts :: "event list \<Rightarrow> delta_context list" where
  "savedContexts [] = []"
| "savedContexts (SaveContext context # evs) = context # savedContexts evs"
| "savedContexts (ev # evs) = savedContexts evs"

text \<open>The pages that the \<open>delta\<close> calls of a run answer with, in their order.\<close>

primrec pagesOf :: "pages \<Rightarrow> delta_page list" where
  "pagesOf (LastPage listResult) = [listResult]"
| "pagesOf (MorePages listResult later) = listResult # pagesOf later"

text \<open>
  The trace holds a successful acquisition of the sync lock at position \<open>i\<close>: the call
  was made there, and the lock handler did not fail.
\<close>

fun acquires :: "env \<Rightarrow> nat \<Rightarrow> event \<Rightarrow> bool" where
  "acquires e i (Call (AcquireLock LockSync a b)) =
     (outcome e i (AcquireLock LockSync a b) = None)"
| "acquires e i ev = False"

definition acquiredAt :: "env \<Rightarrow> event list \<Rightarrow> nat \<Rightarrow> bool" where
  "acquiredAt e evs i \<longleftrightarrow> i < length evs \<and> acquires e i (evs ! i)"

subsection \<open>Invariants of programs\<close>

text \<open>
  \<open>inv P m\<close>: the program \<open>m\<close> keeps \<open>P\<close>, whether it returns or throws. A predicate is
  \<open>tolerant\<close> when it is kept by what nearly every statement of the class does: recording an
  event other than a saved context or the acquisition of a lock, and assigning the report,
  the flags, the download queue, the folders to delete or the output context. It is
  \<open>steady\<close> when it is kept by the remaining assignments and events as well.
\<close>

definition inv :: "(sync \<Rightarrow> bool) \<Rightarrow> 'a prog \<Rightarrow> bool" where
  "inv P m \<longleftrightarrow> (\<forall>s. P s \<longrightarrow> P (snd (m s)))"

fun quiet :: "event \<Rightarrow> bool" where
  "quiet (SaveContext context) = False"
| "quiet (Call (AcquireLock t a b)) = False"
| "quiet ev = True"

definition tolerant :: "(sync \<Rightarrow> bool) \<Rightarrow> bool" where
  "tolerant P \<longleftrightarrow>
     (\<forall>s. P s \<longrightarrow>
        (\<forall>ev. quiet ev \<longrightarrow> P (s\<lparr>trace := trace s @ [ev]\<rparr>))
        \<and> (\<forall>r. P (s\<lparr>progressReport' := r\<rparr>))
        \<and> (\<forall>b. P (s\<lparr>cancelling' := b\<rparr>))
        \<and> (\<forall>b. P (s\<lparr>syncTargetIsLocked' := b\<rparr>))
        \<and> (\<forall>b. P (s\<lparr>downloadQueue' := b\<rparr>))
        \<and> (\<forall>b. P (s\<lparr>hasAutoEnabledEncryption := b\<rparr>))
        \<and> (\<forall>l. P (s\<lparr>localFoldersToDelete := l\<rparr>))
        \<and> (\<forall>x. P (s\<lparr>outputContext := x\<rparr>)))"

definition steady :: "(sync \<Rightarrow> bool) \<Rightarrow> bool" where
  "steady P \<longleftrightarrow>
     tolerant P
     \<and> (\<forall>s. P s \<longrightarrow>
          (\<forall>ev. P (s\<lparr>trace := trace s @ [ev]\<rparr>))
          \<and> (\<forall>d. P (s\<lparr>donePaths := d\<rparr>))
          \<and> (\<forall>b. P (s\<lparr>syncLock := b\<rparr>))
          \<and> (\<forall>x. P (s\<lparr>state' := x\<rparr>)))"

subsection \<open>A small world to run the synchronizer in\<close>

text \<open>
  Collaborators that never fail and have nothing to synchronize, and two items. The
  examples below change one answer at a time.
\<close>

definition exampleNote :: item where
  "exampleNote =
     \<lparr>id' = ''n1'', type' = TYPE_NOTE, updated_time = 20, created_time = 10,
      user_updated_time = 20, user_created_time = 10, sync_time = 0,
      encryption_applied = False, size' = 0, title = ''note'', share_id = []\<rparr>"

definition exampleResource :: item where
  "exampleResource =
     \<lparr>id' = ''r1'', type' = TYPE_RESOURCE, updated_time = 20, created_time = 10,
      user_updated_time = 20, user_created_time = 10, sync_time = 0,
      encryption_applied = False, size' = 120 * 1000 * 1000, title = ''video'',
      share_id = []\<rparr>"

definition exampleContext :: delta_context where
  "exampleContext = \<lparr>continuation = ''page1'', statsCache = Some ''cache'', statIdsCache = None\<rparr>"

definition exampleCollab :: collab where
  "exampleCollab =
     \<lparr>systemPath = (\<lambda>i. i @ ''.md''), pathToId = (\<lambda>p. take (length p - 3) p),
      isSystemPath = (\<lambda>p. True), unserialize = (\<lambda>content. exampleNote\<lparr>id' := content\<rparr>),
      itemFilter = (\<lambda>it. it), mustHandleConflict = (\<lambda>local remote. True),
      fetchRequestCanBeRetried = (\<lambda>error. False), isTestingEnv = False,
      supportsAccurateTimestamp = False, supportsMultiPut = False, syncTargetId = 7,
      wipeOutFailSafe = 20, syncVersion = 3, dirnamesResources = ''.resource'',
      unixMs = (\<lambda>n. n)\<rparr>"

definition exampleEnv :: env where
  "exampleEnv =
     \<lparr>outcome = (\<lambda>n c. None), api_outcome = (\<lambda>n req. None), interrupts = (\<lambda>n. None),
      hasActiveLock = (\<lambda>n t. t = LockSync), stat_result = (\<lambda>n path. None),
      get_result = (\<lambda>n path. None), localState_result = (\<lambda>n i. FETCH_STATUS_DONE),
      fullPath_result = (\<lambda>n it. (it, ''/tmp/blob'')),
      needSync_results = LastBatch \<lparr>items = [], neverSyncedItemIds = []\<rparr>,
      deletedItems_result = [],
      delta_results = LastPage \<lparr>page_items = [], page_context = exampleContext\<rparr>,
      loadItemsByIds_result = (\<lambda>n ids. []), waitForResult_result = (\<lambda>n path. (None, None)),
      noteIds_result = (\<lambda>n i. []), targetVersion = Some 3, masterKeyCount = 0\<rparr>"

text \<open>
  A run in progress, a page of two remote notes, a caller that cancels at a given moment, an
  uploader whose items the target rejects, and a target that cannot be reached.
\<close>

definition running :: sync where
  "running = (newSynchronizer ''desktop'' ''client'')\<lparr>state' := ''in_progress''\<rparr>"

definition examplePage :: delta_page where
  "examplePage =
     \<lparr>page_items =
        [\<lparr>r_id = ''n1'', r_path = ''n1.md'', r_isDeleted = False, r_jop_updated_time = None\<rparr>,
         \<lparr>r_id = ''n2'', r_path = ''n2.md'', r_isDeleted = False, r_jop_updated_time = None\<rparr>],
      page_context = exampleContext\<rparr>"

definition cancelAt :: "nat \<Rightarrow> env" where
  "cancelAt k =
     exampleEnv\<lparr>interrupts := (\<lambda>n. if n = k then Some CancelRequested else None)\<rparr>"

definition rejecting :: env where
  "rejecting =
     exampleEnv\<lparr>outcome := (\<lambda>n c. case c of
        SerializeAndUploadItem path it \<Rightarrow> Some (newJoplinError ''too large'' ''rejectedByTarget'')
      | _ \<Rightarrow> None)\<rparr>"

definition offline :: env where
  "offline = exampleEnv\<lparr>api_outcome := (\<lambda>n req. Some (newJoplinError ''offline'' []))\<rparr>"

definition exampleOptions :: options where
  "exampleOptions =
     \<lparr>opt_onProgress = False, opt_context = None, opt_syncSteps = None,
      opt_throwOnError = False, opt_saveContextHandler = True\<rparr>"

text \<open>
  The remote of the note and of the resource, the answer of a call that returns nothing, and a
  mobile client in the middle of a run.
\<close>

definition exampleRemote :: remote_item where
  "exampleRemote =
     \<lparr>r_id = ''n1'', r_path = ''n1.md'', r_isDeleted = False, r_jop_updated_time = None\<rparr>"

definition resourceRemote :: remote_item where
  "resourceRemote =
     \<lparr>r_id = ''r1'', r_path = ''r1.md'', r_isDeleted = False, r_jop_updated_time = None\<rparr>"

definition nothing :: "nat \<Rightarrow> unit" where
  "nothing n = ()"

definition mobile :: sync where
  "mobile = (newSynchronizer ''mobile'' ''client'')\<lparr>state' := ''in_progress''\<rparr>"

text \<open>
  A target whose file API fails while the lock handler cannot be reached either; a target
  that refuses to hand out any content; an uploader that loses its connection; a lock
  handler that cannot release the lock; a download queue and a serializer that only know the
  resource.
\<close>

definition severed :: env where
  "severed =
     exampleEnv\<lparr>api_outcome := (\<lambda>n req. Some (newJoplinError ''socket hang up'' ''ECONNRESET'')),
                outcome := (\<lambda>n c. case c of
                   HasActiveLock t client \<Rightarrow>
                     Some (newJoplinError ''lock handler unreachable'' ''ENOTFOUND'')
                 | _ \<Rightarrow> None)\<rparr>"

definition refusing :: env where
  "refusing =
     exampleEnv\<lparr>stat_result := (\<lambda>n path. Some exampleRemote),
                api_outcome := (\<lambda>n req. case req of
                   ApiGet path \<Rightarrow> Some (newJoplinError ''forbidden'' ''rejectedByTarget'')
                 | _ \<Rightarrow> None)\<rparr>"

definition dropping :: env where
  "dropping =
     exampleEnv\<lparr>outcome := (\<lambda>n c. case c of
        SerializeAndUploadItem path it \<Rightarrow> Some (newJoplinError ''socket hang up'' ''ECONNRESET'')
      | _ \<Rightarrow> None)\<rparr>"

definition stuck :: env where
  "stuck =
     exampleEnv\<lparr>outcome := (\<lambda>n c. case c of
        ReleaseLock t a b \<Rightarrow> Some (newJoplinError ''lock file busy'' ''EBUSY'')
      | _ \<Rightarrow> None)\<rparr>"

definition resourceQueue :: env where
  "resourceQueue = exampleEnv\<lparr>waitForResult_result := (\<lambda>n path. (None, Some ''r1''))\<rparr>"

definition resourceCollab :: collab where
  "resourceCollab = exampleCollab\<lparr>unserialize := (\<lambda>content. exampleResource)\<rparr>"

section \<open>Properties\<close>

subsection \<open>Evaluation\<close>

lemmas run_defs =
  ret_def throw_def seq_def tryCatch_def modify_def gets_def record_event_def emit_def
  perform_def ask_def now_def attempt_def newJoplinError_def
  logSyncOperation_def cancel_def onLockRefreshError_def deliver_def cancelling_def
  lockErrorStatus'_def apiCall_def awaitApiCall_def

lemmas example_defs =
  exampleNote_def exampleResource_def exampleContext_def exampleCollab_def exampleEnv_def
  exampleOptions_def newSynchronizer_def emptyReport_def running_def examplePage_def
  cancelAt_def rejecting_def offline_def exampleRemote_def resourceRemote_def nothing_def
  mobile_def severed_def refusing_def dropping_def stuck_def resourceQueue_def
  resourceCollab_def

subsection \<open>What every statement keeps\<close>

named_theorems inv_rules

lemma inv_ret [inv_rules]: "inv P (ret x)"
  by (simp add: inv_def ret_def)

lemma inv_throw [inv_rules]: "inv P (throw x)"
  by (simp add: inv_def throw_def)

lemma inv_gets [inv_rules]: "inv P (gets f)"
  by (simp add: inv_def gets_def)

lemma inv_seq [inv_rules]: "inv P m \<Longrightarrow> (\<And>x. inv P (k x)) \<Longrightarrow> inv P (seq m k)"
  by (auto simp: inv_def seq_def split: prod.splits sum.splits)

lemma inv_attempt [inv_rules]: "inv P m \<Longrightarrow> inv P (attempt m)"
  by (auto simp: inv_def attempt_def split: prod.splits)

lemma inv_tryCatch [inv_rules]: "inv P m \<Longrightarrow> (\<And>x. inv P (h x)) \<Longrightarrow> inv P (tryCatch m h)"
  by (auto simp: inv_def tryCatch_def split: prod.splits sum.splits)

lemma inv_if [inv_rules]: "(b \<Longrightarrow> inv P m) \<Longrightarrow> (\<not> b \<Longrightarrow> inv P n) \<Longrightarrow> inv P (if b then m else n)"
  by simp

lemma inv_case_option [inv_rules]:
  "(x = None \<Longrightarrow> inv P m) \<Longrightarrow> (\<And>y. x = Some y \<Longrightarrow> inv P (n y)) \<Longrightarrow> inv P (case x of None \<Rightarrow> m | Some y \<Rightarrow> n y)"
  by (cases x) simp_all

lemma inv_case_sum [inv_rules]:
  "(\<And>y. x = Inl y \<Longrightarrow> inv P (m y)) \<Longrightarrow> (\<And>y. x = Inr y \<Longrightarrow> inv P (n y)) \<Longrightarrow> inv P (case x of Inl y \<Rightarrow> m y | Inr y \<Rightarrow> n y)"
  by (cases x) simp_all

lemma inv_case_prod [inv_rules]:
  "(\<And>a b. x = (a, b) \<Longrightarrow> inv P (m a b)) \<Longrightarrow> inv P (case x of (a, b) \<Rightarrow> m a b)"
  by (cases x) simp_all

lemma inv_case_decision [inv_rules]:
  "(x = Rejected \<Longrightarrow> inv P m) \<Longrightarrow> (\<And>a b. x = Decided a b \<Longrightarrow> inv P (n a b)) \<Longrightarrow> inv P (case x of Rejected \<Rightarrow> m | Decided a b \<Rightarrow> n a b)"
  by (cases x) simp_all

lemma inv_Let [inv_rules]: "(\<And>x. x = v \<Longrightarrow> inv P (m x)) \<Longrightarrow> inv P (Let v m)"
  by simp

lemma tolerant_event:
  "tolerant P \<Longrightarrow> P s \<Longrightarrow> quiet ev \<Longrightarrow> P (record_event ev s)"
  by (simp add: tolerant_def record_event_def)

lemma tolerant_fields:
  assumes "tolerant P" and "P s"
  shows "P (s\<lparr>progressReport' := r\<rparr>)" and "P (s\<lparr>cancelling' := b\<rparr>)"
    and "P (s\<lparr>syncTargetIsLocked' := b\<rparr>)" and "P (s\<lparr>downloadQueue' := b\<rparr>)"
    and "P (s\<lparr>hasAutoEnabledEncryption := b\<rparr>)" and "P (s\<lparr>localFoldersToDelete := l\<rparr>)"
    and "P (s\<lparr>outputContext := x\<rparr>)"
  using assms by (simp_all add: tolerant_def)

lemma inv_emit [inv_rules]:
  assumes "tolerant P" and "quiet ev"
  shows "inv P (emit ev)"
  using tolerant_event[OF assms(1)] assms(2) by (simp add: inv_def emit_def modify_def)

lemma inv_perform [inv_rules]:
  assumes "tolerant P" and "quiet (Call c)"
  shows "inv P (perform e c)"
  using tolerant_event[OF assms(1), where ev = "Call c"] assms(2)
  by (auto simp: inv_def perform_def split: option.splits)

lemma inv_ask [inv_rules]:
  assumes "tolerant P" and "quiet (Call c)"
  shows "inv P (ask e c answer)"
  using tolerant_event[OF assms(1), where ev = "Call c"] assms(2)
  by (auto simp: inv_def ask_def split: option.splits)

lemma tolerant_logSyncOperation:
  assumes "tolerant P" and "P s"
  shows "P (logSyncOperation act n s)"
  unfolding logSyncOperation_def Let_def
  by (intro tolerant_event[OF assms(1)] tolerant_fields[OF assms(1)] assms(2)) simp_all

lemma inv_logSyncOperation [inv_rules]:
  assumes "tolerant P"
  shows "inv P (modify (logSyncOperation act n))"
  using tolerant_logSyncOperation[OF assms] by (simp add: inv_def modify_def)

lemma tolerant_cancel:
  assumes "tolerant P" and "P s"
  shows "P (cancel s)"
proof (cases "cancelling' s \<or> state' s = ''idle''")
  case True
  then show ?thesis using assms(2) by (simp add: cancel_def)
next
  case False
  have "P (if downloadQueue' s then record_event (Call QueueStop) s else s)"
    using tolerant_event[OF assms, where ev = "Call QueueStop"] assms(2) by simp
  then have "P ((logSyncOperation ''cancelling'' 1
      (if downloadQueue' s then record_event (Call QueueStop) s else s))\<lparr>cancelling' := True\<rparr>)"
    by (intro tolerant_fields[OF assms(1)] tolerant_logSyncOperation[OF assms(1)])
  with False show ?thesis by (simp add: cancel_def Let_def)
qed

lemma tolerant_deliver:
  assumes "tolerant P" and "P s"
  shows "P (deliver e s)"
proof -
  have "P (onLockRefreshError s)"
    unfolding onLockRefreshError_def
    by (intro tolerant_cancel[OF assms(1)] tolerant_fields[OF assms(1)]
        tolerant_event[OF assms(1)] assms(2)) simp
  then show ?thesis
    using tolerant_cancel[OF assms] assms(2)
    by (simp add: deliver_def split: option.splits interrupt.splits)
qed

lemma inv_cancelling [inv_rules]:
  assumes "tolerant P"
  shows "inv P (cancelling e)"
  using tolerant_deliver[OF assms] by (simp add: inv_def cancelling_def Let_def)

lemma inv_pushError [inv_rules]:
  assumes "tolerant P"
  shows "inv P (modify (pushError err))"
  using tolerant_fields(1)[OF assms] by (simp add: inv_def modify_def pushError_def)

lemma inv_lockErrorStatus [inv_rules]: "tolerant P \<Longrightarrow> inv P (lockErrorStatus' e)"
  unfolding lockErrorStatus'_def by (intro inv_rules) simp_all

lemma inv_apiCall [inv_rules]:
  assumes "tolerant P"
  shows "inv P (apiCall e req answer)"
proof -
  have failing: "inv P (seq (lockErrorStatus' e) k)" if "\<And>x. inv P (k x)"
    for k :: "string \<Rightarrow> 'a prog"
    using assms that by (intro inv_rules)
  show ?thesis
    unfolding inv_def
  proof (intro allI impI)
    fix s
    assume "P s"
    then have "P (record_event (Api req) s)"
      by (intro tolerant_event[OF assms]) simp_all
    then show "P (snd (apiCall e req answer s))"
      using \<open>P s\<close> failing[unfolded inv_def, rule_format, of _ "record_event (Api req) s"]
      by (auto simp: apiCall_def throw_def inv_throw split: option.splits)
  qed
qed

lemma inv_awaitApiCall [inv_rules]:
  assumes "tolerant P"
  shows "inv P (awaitApiCall e req answer)"
  using inv_apiCall[OF assms, of e req answer] tolerant_deliver[OF assms]
  by (simp add: inv_def awaitApiCall_def)

lemma inv_statRemote [inv_rules]:
  "tolerant P \<Longrightarrow> inv P (statRemote e neverSynced local path)"
  unfolding statRemote_def by (intro inv_rules)

lemma inv_handleCannotSyncItem [inv_rules]:
  "tolerant P \<Longrightarrow> inv P (handleCannotSyncItem e t it r l)"
  unfolding handleCannotSyncItem_def by (intro inv_rules) simp_all

lemma inv_decideAction [inv_rules]: "tolerant P \<Longrightarrow> inv P (decideAction e c local remote path)"
  unfolding decideAction_def by (intro inv_rules) simp_all

lemma inv_blobCannotSync [inv_rules]: "tolerant P \<Longrightarrow> inv P (blobCannotSync e c local error)"
  unfolding blobCannotSync_def by (intro inv_rules)

lemma inv_uploadResourceBlob [inv_rules]:
  "tolerant P \<Longrightarrow> inv P (uploadResourceBlob e c local act)"
  unfolding uploadResourceBlob_def by (intro inv_rules) simp_all

lemma inv_contentOf [inv_rules]: "inv P (contentOf x)"
  unfolding contentOf_def by (intro inv_rules)

lemma inv_uploadMetadata [inv_rules]: "tolerant P \<Longrightarrow> inv P (uploadMetadata e c local path)"
  unfolding uploadMetadata_def by (intro inv_rules) simp_all

lemma inv_takeRemote [inv_rules]:
  "tolerant P \<Longrightarrow> inv P (takeRemote e c local remote remoteContent b)"
  unfolding takeRemote_def by (intro inv_rules) simp_all

lemma inv_applyUploadAction [inv_rules]:
  "tolerant P \<Longrightarrow> inv P (applyUploadAction e c act local remote remoteContent path)"
  unfolding applyUploadAction_def by (intro inv_rules) simp_all

lemma inv_uploadDecided [inv_rules]:
  "tolerant P \<Longrightarrow> inv P (uploadDecided e c local act remote remoteContent path)"
  unfolding uploadDecided_def by (intro inv_rules)

text \<open>The part of the loop body that leaves \<open>donePaths\<close> alone.\<close>

lemma syncLocalItem_split:
  "syncLocalItem e c neverSynced local path =
     seq (seq (statRemote e neverSynced local path)
            (\<lambda>remote. seq (decideAction e c local remote path)
            (\<lambda>d. case d of
               Rejected \<Rightarrow> ret ()
             | Decided act remoteContent \<Rightarrow>
                 seq (modify (logSyncOperation act 1))
                   (\<lambda>_. uploadDecided e c local act remote remoteContent path))))
       (\<lambda>_. modify (completeItemProcessing path))"
  by (simp add: syncLocalItem_def)

lemma inv_syncLocalItem_body:
  "tolerant P \<Longrightarrow>
   inv P (seq (statRemote e neverSynced local path)
            (\<lambda>remote. seq (decideAction e c local remote path)
            (\<lambda>d. case d of
               Rejected \<Rightarrow> ret ()
             | Decided act remoteContent \<Rightarrow>
                 seq (modify (logSyncOperation act 1))
                   (\<lambda>_. uploadDecided e c local act remote remoteContent path))))"
  by (intro inv_rules)

lemma uploadItem_unfold:
  "uploadItem e c neverSynced local s =
     (if systemPath c (id' local) \<in> set (donePaths s)
      then (Inl (processingPathTwice (systemPath c (id' local))), s)
      else syncLocalItem e c neverSynced local (systemPath c (id' local)) s)"
  by (simp add: uploadItem_def seq_def gets_def throw_def)

lemma inv_uploadItem_distinct:
  "inv (\<lambda>s :: sync. distinct (donePaths s)) (uploadItem e c neverSynced local)"
  unfolding inv_def
proof (intro allI impI)
  fix s :: sync
  let ?path = "systemPath c (id' local)"
  assume d: "distinct (donePaths s)"
  show "distinct (donePaths (snd (uploadItem e c neverSynced local s)))"
  proof (cases "?path \<in> set (donePaths s)")
    case True
    then show ?thesis using d by (simp add: uploadItem_unfold)
  next
    case False
    let ?P = "\<lambda>s :: sync. distinct (donePaths s) \<and> ?path \<notin> set (donePaths s)"
    have "tolerant ?P"
      by (simp add: tolerant_def)
    note body = inv_syncLocalItem_body[OF this, where local = local and neverSynced = neverSynced
        and e = e and path = ?path and c = c, unfolded inv_def, rule_format, of s]
    have "?P s" using d False by simp
    with body show ?thesis
      using False
      by (auto simp: uploadItem_unfold syncLocalItem_split seq_def modify_def
          completeItemProcessing_def split: prod.splits sum.splits)
  qed
qed

lemma inv_uploadItems:
  assumes "tolerant P" and "\<And>local. inv P (uploadItem e c neverSynced local)"
  shows "inv P (uploadItems e c neverSynced xs)"
  by (induction xs) (simp_all, (intro inv_rules assms | assumption)+)

lemma inv_uploadBatch:
  assumes "tolerant P" and "\<And>neverSynced local. inv P (uploadItem e c neverSynced local)"
  shows "inv P (uploadBatch e c result)"
  unfolding uploadBatch_def by (intro inv_rules inv_uploadItems assms) simp_all

lemma inv_uploadLoop:
  assumes "tolerant P" and "\<And>neverSynced local. inv P (uploadItem e c neverSynced local)"
  shows "inv P (uploadLoop e c bs)"
  by (induction bs) (simp_all, (intro inv_rules inv_uploadBatch assms | assumption)+)


lemma inv_uploadPhase_distinct:
  "''update_remote'' \<in> set syncSteps \<Longrightarrow>
   distinct (donePaths (snd (uploadPhase e c syncSteps s)))"
proof -
  have t: "tolerant (\<lambda>s :: sync. distinct (donePaths s))"
    by (simp add: tolerant_def)
  have "distinct (donePaths (snd (uploadLoop e c (needSync_results e) (s\<lparr>donePaths := []\<rparr>))))"
    using inv_uploadLoop[OF t inv_uploadItem_distinct, unfolded inv_def] by simp
  then show "''update_remote'' \<in> set syncSteps \<Longrightarrow> ?thesis"
    by (simp add: uploadPhase_def seq_def modify_def)
qed

lemma syncLocalItem_appends:
  assumes "fst (syncLocalItem e c neverSynced local path s) = Inr ()"
  shows "donePaths (snd (syncLocalItem e c neverSynced local path s)) = donePaths s @ [path]"
proof -
  have "tolerant (\<lambda>s' :: sync. donePaths s' = donePaths s)"
    by (simp add: tolerant_def)
  note body = inv_syncLocalItem_body[OF this, where local = local and neverSynced = neverSynced
        and e = e and path = path and c = c, unfolded inv_def, rule_format, of s]
  with assms show ?thesis
    by (auto simp: syncLocalItem_split seq_def modify_def completeItemProcessing_def
        split: prod.splits sum.splits)
qed

lemma inv_deleteRemoteItem [inv_rules]: "tolerant P \<Longrightarrow> inv P (deleteRemoteItem e c it)"
  unfolding deleteRemoteItem_def by (intro inv_rules) simp_all

lemma inv_deleteRemoteItems [inv_rules]: "tolerant P \<Longrightarrow> inv P (deleteRemoteItems e c xs)"
  by (induction xs) (simp_all split del: if_split, (intro inv_rules | assumption | simp)+)

lemma inv_deleteRemotePhase [inv_rules]: "tolerant P \<Longrightarrow> inv P (deleteRemotePhase e c steps)"
  unfolding deleteRemotePhase_def by (intro inv_rules) simp_all

lemma inv_queueDownloads [inv_rules]: "tolerant P \<Longrightarrow> inv P (queueDownloads e c locals xs)"
  by (induction xs) (simp_all split del: if_split, (intro inv_rules | assumption | simp)+)

lemma inv_loadContent [inv_rules]: "tolerant P \<Longrightarrow> inv P (loadContent e c path)"
  unfolding loadContent_def by (intro inv_rules) simp_all

lemma inv_chooseLocalAction [inv_rules]: "tolerant P \<Longrightarrow> inv P (chooseLocalAction e c found remote)"
  unfolding chooseLocalAction_def by (intro inv_rules) 

lemma inv_set_hasAuto [inv_rules]:
  assumes "tolerant P"
  shows "inv P (modify (\<lambda>s. s\<lparr>hasAutoEnabledEncryption := b\<rparr>))"
  using tolerant_fields[OF assms] by (simp add: inv_def modify_def)

lemma inv_autoEnableEncryption [inv_rules]: "tolerant P \<Longrightarrow> inv P (autoEnableEncryption e content n)"
  unfolding autoEnableEncryption_def by (intro inv_rules) simp_all

lemma inv_saveLocal [inv_rules]: "tolerant P \<Longrightarrow> inv P (saveLocal e c act loaded n)"
  unfolding saveLocal_def by (intro inv_rules) simp_all

lemma inv_push_folder [inv_rules]:
  assumes "tolerant P"
  shows "inv P (modify (\<lambda>s. s\<lparr>localFoldersToDelete := f s\<rparr>))"
  using tolerant_fields[OF assms] by (simp add: inv_def modify_def)

lemma inv_deleteLocal [inv_rules]: "tolerant P \<Longrightarrow> inv P (deleteLocal e found)"
  unfolding deleteLocal_def by (intro inv_rules) simp_all

lemma inv_applyLocalAction [inv_rules]: "tolerant P \<Longrightarrow> inv P (applyLocalAction e c n chosen)"
  unfolding applyLocalAction_def by (intro inv_rules) simp_all

lemma inv_deltaItem [inv_rules]: "tolerant P \<Longrightarrow> inv P (deltaItem e c locals n remote)"
  unfolding deltaItem_def by (intro inv_rules) simp_all

lemma inv_deltaItems [inv_rules]: "tolerant P \<Longrightarrow> inv P (deltaItems e c locals n xs)"
  by (induction xs) (simp_all split del: if_split, (intro inv_rules | assumption | simp)+)

lemma inv_deltaPage [inv_rules]: "tolerant P \<Longrightarrow> inv P (deltaPage e c n context listResult)"
  unfolding deltaPage_def by (intro inv_rules) simp_all

lemma steady_tolerant: "steady P \<Longrightarrow> tolerant P"
  by (simp add: steady_def)

lemma steady_event: "steady P \<Longrightarrow> P s \<Longrightarrow> P (record_event ev s)"
  by (simp add: steady_def record_event_def)

lemma steady_fields:
  assumes "steady P" and "P s"
  shows "P (s\<lparr>donePaths := d\<rparr>)" and "P (s\<lparr>syncLock := b\<rparr>)" and "P (s\<lparr>state' := x\<rparr>)"
  using assms by (simp_all add: steady_def)

lemma inv_emit_steady: "steady P \<Longrightarrow> inv P (emit ev)"
  by (simp add: inv_def emit_def modify_def steady_event)

lemma inv_perform_steady: "steady P \<Longrightarrow> inv P (perform e c)"
  by (auto simp: inv_def perform_def steady_event split: option.splits)

lemma inv_saveContext:
  assumes "\<And>s saved. P s \<Longrightarrow> P (record_event (SaveContext saved) s)"
  shows "inv P (saveContext opts listResult)"
  using assms by (simp add: saveContext_def inv_def emit_def modify_def ret_def)

lemma inv_deltaLoop:
  assumes "tolerant P" and "\<And>s saved. P s \<Longrightarrow> P (record_event (SaveContext saved) s)"
  shows "inv P (deltaLoop e c opts n ps ctx)"
  by (induction ps arbitrary: ctx)
    (simp_all split del: if_split,
      (intro inv_rules inv_saveContext assms | assumption | simp)+)

lemma inv_deleteFolders [inv_rules]: "tolerant P \<Longrightarrow> inv P (deleteFolders e xs)"
  by (induction xs) (simp_all split del: if_split, (intro inv_rules | assumption | simp)+)

lemma inv_recordDelta [inv_rules]:
  assumes "tolerant P"
  shows "inv P (modify (recordDelta new lastContext))"
  using tolerant_fields[OF assms] by (simp add: inv_def modify_def recordDelta_def)

lemma inv_newQueue [inv_rules]:
  assumes "tolerant P"
  shows "inv P (modify (\<lambda>s. record_event NewQueue (s\<lparr>downloadQueue' := True\<rparr>)))"
  using tolerant_fields[OF assms] tolerant_event[OF assms, where ev = NewQueue]
  by (simp add: inv_def modify_def)

lemma inv_deltaPhase:
  assumes "tolerant P" and "\<And>s saved. P s \<Longrightarrow> P (record_event (SaveContext saved) s)"
  shows "inv P (deltaPhase e c opts steps lastContext n)"
  unfolding deltaPhase_def
  by (intro inv_rules inv_deltaLoop assms) simp_all

lemma inv_checkTarget [inv_rules]: "tolerant P \<Longrightarrow> inv P (checkTarget e c)"
  unfolding checkTarget_def by (intro inv_rules) simp_all

lemma inv_set_syncLock:
  assumes "steady P"
  shows "inv P (modify (\<lambda>s. s\<lparr>syncLock := b\<rparr>))"
  using steady_fields[OF assms] by (simp add: inv_def modify_def)

lemma inv_acquireSyncLock:
  assumes "steady P"
  shows "inv P (acquireSyncLock e)"
  unfolding acquireSyncLock_def
  by (intro inv_rules inv_perform_steady inv_emit_steady inv_set_syncLock assms)

lemma inv_uploadItem_free:
  assumes "tolerant P" and "\<And>s d. P s \<Longrightarrow> P (s\<lparr>donePaths := d\<rparr>)"
  shows "inv P (uploadItem e c neverSynced local)"
proof -
  have "inv P (modify (completeItemProcessing path))" for path
    using assms(2) by (simp add: inv_def modify_def completeItemProcessing_def)
  then show ?thesis
    unfolding uploadItem_def syncLocalItem_def
    by (intro inv_rules assms(1))
qed

lemma inv_uploadPhase:
  assumes "tolerant P" and "\<And>s d. P s \<Longrightarrow> P (s\<lparr>donePaths := d\<rparr>)"
  shows "inv P (uploadPhase e c steps)"
proof -
  have "inv P (modify (\<lambda>s. s\<lparr>donePaths := []\<rparr>))"
    using assms(2) by (simp add: inv_def modify_def)
  then show ?thesis
    unfolding uploadPhase_def
    by (intro inv_rules inv_uploadLoop inv_uploadItem_free assms)
qed

text \<open>The three phases, after the lock was taken.\<close>

lemma inv_three_phases:
  assumes "tolerant P" and "\<And>s d. P s \<Longrightarrow> P (s\<lparr>donePaths := d\<rparr>)"
    and "\<And>s saved. P s \<Longrightarrow> P (record_event (SaveContext saved) s)"
  shows "inv P (seq (uploadPhase e c steps)
           (\<lambda>_. seq (deleteRemotePhase e c steps)
           (\<lambda>_. deltaPhase e c opts steps lastContext n)))"
  by (intro inv_rules inv_uploadPhase inv_deltaPhase assms)

lemma inv_phases:
  assumes "steady P"
  shows "inv P (phases e c opts steps lastContext n)"
  unfolding phases_def
  by (intro inv_rules inv_uploadPhase inv_deltaPhase inv_acquireSyncLock assms
      steady_tolerant[OF assms] steady_event[OF assms] steady_fields[OF assms]) simp_all

lemma inv_handleError [inv_rules]: "tolerant P \<Longrightarrow> inv P (handleError c throwOnError error)"
  unfolding handleError_def by (intro inv_rules) simp_all

lemma inv_releaseSyncLock [inv_rules]: "tolerant P \<Longrightarrow> inv P (releaseSyncLock e)"
proof -
  assume t: "tolerant P"
  have "inv P (perform e (ReleaseLock LockSync a b))" for a b
    using t by (intro inv_rules) simp_all
  then have "inv P (seq (gets (\<lambda>s. ReleaseLock LockSync (appType' s) (clientId' s))) (perform e))"
    by (auto simp: inv_def seq_def gets_def)
  then show ?thesis
    unfolding releaseSyncLock_def using t
    by (intro \<open>inv P (seq (gets (\<lambda>s. ReleaseLock LockSync (appType' s) (clientId' s)))
        (perform e))\<close> inv_seq inv_gets inv_if inv_ret inv_emit) simp_all
qed

lemma inv_complete:
  assumes t: "tolerant P" and idle: "\<And>s x. P s \<Longrightarrow> P (s\<lparr>state' := x\<rparr>)"
  shows "inv P (complete e c steps errorToThrow)"
proof -
  have m: "inv P (modify f)" if "\<And>s. P s \<Longrightarrow> P (f s)" for f
    using that by (simp add: inv_def modify_def)
  show ?thesis
    unfolding complete_def
    by (intro inv_rules m t tolerant_fields[OF t] idle) simp_all
qed

lemma inv_finish:
  assumes "tolerant P" and "\<And>s x. P s \<Longrightarrow> P (s\<lparr>state' := x\<rparr>)"
  shows "inv P (finish e c steps errorToThrow)"
  unfolding finish_def by (intro inv_rules inv_complete assms)

lemma inv_announce:
  assumes t: "tolerant P" and lock: "\<And>s b. P s \<Longrightarrow> P (s\<lparr>syncLock := b\<rparr>)"
  shows "inv P (announce e c opts)"
proof -
  have m: "inv P (modify f)" if "\<And>s. P s \<Longrightarrow> P (f s)" for f
    using that by (simp add: inv_def modify_def)
  have a: "P (s\<lparr>progressReport' := r, syncTargetIsLocked' := x, cancelling' := y\<rparr>)" if "P s" for s r x y
    by (intro tolerant_fields[OF t] that)
  have b: "P (s\<lparr>hasAutoEnabledEncryption := r, outputContext := x, syncLock := y\<rparr>)" if "P s" for s r x y
    by (intro tolerant_fields[OF t] lock that)
  show ?thesis
    unfolding announce_def
    by (intro inv_rules m a b t tolerant_fields[OF t]) simp_all
qed

lemma inv_prepare [inv_rules]: "tolerant P \<Longrightarrow> inv P (prepare e)"
  unfolding prepare_def by (intro inv_rules) simp_all

lemma savedContexts_append: "savedContexts (a @ b) = savedContexts a @ savedContexts b"
  by (induction a rule: savedContexts.induct) simp_all

lemma savedContexts_quiet: "quiet ev \<Longrightarrow> savedContexts [ev] = []"
  by (cases ev) simp_all

lemma saved_tolerant: "tolerant (\<lambda>s' :: sync. savedContexts (trace s') = l)"
  by (simp add: tolerant_def savedContexts_append savedContexts_quiet)

subsection \<open>The end of a run\<close>

lemma grows_steady: "steady (\<lambda>s' :: sync. \<exists>evs. trace s' = t @ evs)"
  by (auto simp: steady_def tolerant_def)

lemma client_steady: "steady (\<lambda>s' :: sync. appType' s' = a \<and> clientId' s' = b)"
  by (simp add: steady_def tolerant_def)

lemma in_progress_tolerant: "tolerant (\<lambda>s' :: sync. state' s' = x \<and> syncLock s' = b)"
  by (simp add: tolerant_def)

lemma deliver_keeps:
  "\<exists>evs. trace (deliver e s) = trace s @ evs"
  "syncLock (deliver e s) = syncLock s"
  "state' (deliver e s) = state' s"
  using tolerant_deliver[OF steady_tolerant[OF grows_steady[of "trace s"]], of s e]
    tolerant_deliver[OF in_progress_tolerant[of "state' s" "syncLock s"], of s e]
  by simp_all

lemma complete_result:
  assumes "\<forall>n. outcome e n LogSyncSummary = None"
  shows "\<exists>s' pre. complete e c steps err s =
            ((case err of None \<Rightarrow> Inr (outputContext s') | Some x \<Rightarrow> Inl x), s')
          \<and> state' s' = ''idle'' \<and> syncLock s' = syncLock s
          \<and> trace s' = trace s @ pre @ [Dispatch (SYNC_COMPLETED (isFullSync steps))]"
proof -
  obtain evs where evs: "trace (deliver e (s\<lparr>syncTargetIsLocked' := False\<rparr>)) = trace s @ evs"
    using deliver_keeps(1)[of e "s\<lparr>syncTargetIsLocked' := False\<rparr>"] by auto
  have lock: "syncLock (deliver e (s\<lparr>syncTargetIsLocked' := False\<rparr>)) = syncLock s"
    using deliver_keeps(2)[of e "s\<lparr>syncTargetIsLocked' := False\<rparr>"] by simp
  show ?thesis
    using assms evs lock
    by (cases err)
      (auto simp: complete_def seq_def modify_def cancelling_def Let_def emit_def ret_def
        gets_def tryCatch_def perform_def throw_def record_event_def logSyncOperation_def
        split: option.splits)
qed


lemma releaseSyncLock_result:
  assumes "\<forall>n a b. outcome e n (ReleaseLock LockSync a b) = None"
  shows "releaseSyncLock e s =
    (Inr (), if syncLock s
             then record_event (Call (ReleaseLock LockSync (appType' s) (clientId' s)))
                    (record_event StopAutoLockRefresh s)
             else s)"
  using assms
  by (simp add: releaseSyncLock_def seq_def gets_def emit_def modify_def perform_def ret_def
      record_event_def)

lemma finish_result:
  assumes "\<forall>n a b. outcome e n (ReleaseLock LockSync a b) = None"
    and "\<forall>n. outcome e n LogSyncSummary = None"
  shows "\<exists>s' pre. finish e c steps err s =
            ((case err of None \<Rightarrow> Inr (outputContext s') | Some x \<Rightarrow> Inl x), s')
          \<and> state' s' = ''idle'' \<and> syncLock s' = syncLock s
          \<and> trace s' = trace s @ pre @ [Dispatch (SYNC_COMPLETED (isFullSync steps))]
          \<and> (syncLock s \<longrightarrow>
                (\<exists>post. trace s' = trace s @ [StopAutoLockRefresh,
                   Call (ReleaseLock LockSync (appType' s) (clientId' s))] @ post))"
proof -
  let ?s1 = "if syncLock s
             then record_event (Call (ReleaseLock LockSync (appType' s) (clientId' s)))
                    (record_event StopAutoLockRefresh s)
             else s"
  obtain s' pre where c: "complete e c steps err ?s1 =
        ((case err of None \<Rightarrow> Inr (outputContext s') | Some x \<Rightarrow> Inl x), s')"
      "state' s' = ''idle''" "syncLock s' = syncLock ?s1"
      "trace s' = trace ?s1 @ pre @ [Dispatch (SYNC_COMPLETED (isFullSync steps))]"
    using complete_result[OF assms(2), of c steps err ?s1] by blast
  have "finish e c steps err s = complete e c steps err ?s1"
    by (simp add: finish_def seq_def releaseSyncLock_result[OF assms(1)])
  with c show ?thesis
    by (auto simp: record_event_def)
qed

lemma announce_result:
  assumes "\<forall>n. outcome e n MasterKeyCount = None"
  shows "fst (announce e c opts s) = Inr (masterKeyCount e)"
  using assms
  by (simp add: announce_def seq_def modify_def ask_def emit_def ret_def)

lemma prepare_result:
  assumes "\<forall>n. outcome e n UpdateAllShareIds = None"
  shows "fst (prepare e s) = Inr ()"
  using assms
  by (auto simp: prepare_def seq_def gets_def tryCatch_def emit_def modify_def perform_def ret_def
      split: option.splits)

lemma handleError_result:
  "fst (handleError c throwOnError error s) = Inr (if throwOnError then Some error else None)"
  by (simp add: handleError_def seq_def emit_def modify_def ret_def)

lemma handleError_only_logs:
  "\<exists>logs errs. handleError c False error s0 =
      (Inr None, s0\<lparr>progressReport' := (progressReport' s0)
                       \<lparr>errors := errors (progressReport' s0) @ errs\<rparr>,
                    trace := trace s0 @ logs\<rparr>)
      \<and> set logs \<subseteq> {Log ''info'', Log ''error'', LogLastRequests}"
proof -
  let ?known = "code error \<in> set [''cannotEncryptEncrypted'', ''noActiveMasterKey'',
    ''processingPathTwice'', ''failSafe'', ''lockError'', ''outdatedSyncTarget'']"
  let ?shown = "code error = ''failSafe'' \<or> code error = ''lockError''"
  let ?goal = "\<lambda>logs errs. handleError c False error s0 =
      (Inr None, s0\<lparr>progressReport' := (progressReport' s0)
                       \<lparr>errors := errors (progressReport' s0) @ errs\<rparr>,
                    trace := trace s0 @ logs\<rparr>)
      \<and> set logs \<subseteq> {Log ''info'', Log ''error'', LogLastRequests}"
  note defs = handleError_def seq_def emit_def modify_def ret_def pushError_def record_event_def
  consider (shown) "?known" "?shown" "\<not> isTestingEnv c"
    | (testing) "?known" "?shown" "isTestingEnv c"
    | (quiet) "?known" "\<not> ?shown"
    | (unknown) "\<not> ?known" "code error = ''unknownItemType''"
    | (retry) "\<not> ?known" "code error \<noteq> ''unknownItemType''" "fetchRequestCanBeRetried c error"
    | (final) "\<not> ?known" "code error \<noteq> ''unknownItemType''" "\<not> fetchRequestCanBeRetried c error"
    by blast
  then show ?thesis
  proof cases
    case shown
    then have "?goal [Log ''info'', LogLastRequests] [ErrorMessage (message error)]"
      by (auto simp: defs)
    then show ?thesis by blast
  next
    case testing
    then have "?goal [Log ''info'', LogLastRequests] []"
      by (auto simp: defs)
    then show ?thesis by blast
  next
    case quiet
    then have "?goal [Log ''info''] []"
      by (auto simp: defs)
    then show ?thesis by blast
  next
    case unknown
    then have "?goal [Log ''error''] [ErrorMessage
        ''Unknown item type downloaded - please upgrade Joplin to the latest version'']"
      by (auto simp: defs)
    then show ?thesis by blast
  next
    case retry
    then have "?goal [Log ''error''] []"
      by (auto simp: defs)
    then show ?thesis by blast
  next
    case final
    then have "?goal [Log ''error'', LogLastRequests] [ErrorObject error]"
      by (auto simp: defs)
    then show ?thesis by blast
  qed
qed

text \<open>Where an error thrown by \<open>start\<close> may come from when the \<open>catch\<close> block rethrows nothing.\<close>

lemma announce_throws:
  "fst (announce e c opts s) = Inl err \<Longrightarrow> \<exists>n. outcome e n MasterKeyCount = Some err"
  by (auto simp: announce_def seq_def modify_def ask_def emit_def ret_def split: option.splits)

lemma prepare_throws:
  "fst (prepare e s) = Inl err \<Longrightarrow> \<exists>n. outcome e n UpdateAllShareIds = Some err"
  by (auto simp: prepare_def seq_def gets_def tryCatch_def emit_def modify_def perform_def ret_def
      split: option.splits if_splits)

lemma releaseSyncLock_throws:
  "fst (releaseSyncLock e s) = Inl err \<Longrightarrow>
   \<exists>n. outcome e n (ReleaseLock LockSync (appType' s) (clientId' s)) = Some err"
  by (auto simp: releaseSyncLock_def seq_def gets_def emit_def modify_def perform_def ret_def
      record_event_def split: option.splits if_splits)

lemma complete_throws:
  "fst (complete e c steps None s) = Inl err \<Longrightarrow> \<exists>n. outcome e n LogSyncSummary = Some err"
  by (auto simp: complete_def seq_def modify_def cancelling_def Let_def emit_def ret_def
      gets_def tryCatch_def perform_def split: option.splits if_splits)

lemma finish_throws:
  assumes "fst (finish e c steps None s) = Inl err"
  shows "(\<exists>n. outcome e n (ReleaseLock LockSync (appType' s) (clientId' s)) = Some err)
         \<or> (\<exists>n. outcome e n LogSyncSummary = Some err)"
proof (cases "releaseSyncLock e s")
  case (Pair r s1)
  show ?thesis
  proof (cases r)
    case (Inl x)
    then show ?thesis
      using assms Pair releaseSyncLock_throws[of e s err] by (simp add: finish_def seq_def)
  next
    case (Inr u)
    then show ?thesis
      using assms Pair complete_throws[of e c steps s1 err] by (simp add: finish_def seq_def)
  qed
qed

lemma seq_modify: "seq (modify f) k s = k () (f s)"
  by (simp add: seq_def modify_def)

lemma seq_ask_ok:
  "outcome e (length (trace s)) c = None \<Longrightarrow>
   seq (ask e c answer) k s = k (answer (length (trace s))) (record_event (Call c) s)"
  by (simp add: seq_def ask_def)

lemma announce_unlocks:
  assumes "\<forall>n. outcome e n MasterKeyCount = None"
  shows "\<not> syncLock (snd (announce e c opts s))"
proof -
  have t: "tolerant (\<lambda>s :: sync. \<not> syncLock s)"
    by (simp add: tolerant_def)
  have m: "inv P (modify f)" if "\<And>s. P s \<Longrightarrow> P (f s)" for f and P :: "sync \<Rightarrow> bool"
    using that by (simp add: inv_def modify_def)
  let ?rest = "\<lambda>k. seq (modify (\<lambda>s. s\<lparr>progressReport' :=
                     (progressReport' s)\<lparr>startTime := Some (now c s)\<rparr>\<rparr>))
       (\<lambda>_. seq (emit (Dispatch SYNC_STARTED))
       (\<lambda>_. seq (emit (Emit ''syncStart'' False))
       (\<lambda>_. seq (modify (logSyncOperation ''starting'' 1))
       (\<lambda>_. ret k))))"
  have rest: "inv (\<lambda>s. \<not> syncLock s) (?rest k)" for k :: nat
    by (intro inv_rules m t) simp_all
  let ?s2 = "(record_event (Call MasterKeyCount)
      (s\<lparr>progressReport' := emptyReport, syncTargetIsLocked' := False, cancelling' := False\<rparr>))
      \<lparr>hasAutoEnabledEncryption := False, outputContext := lastContextOf opts, syncLock := False\<rparr>"
  have "announce e c opts s = ?rest (masterKeyCount e) ?s2"
    using assms by (simp add: announce_def seq_modify seq_ask_ok)
  moreover have "\<not> syncLock ?s2"
    by simp
  ultimately show ?thesis
    using rest[of "masterKeyCount e"] by (simp add: inv_def)
qed

lemma acquires_quiet: "quiet ev \<Longrightarrow> \<not> acquires e i ev"
  by (cases "(e, i, ev)" rule: acquires.cases) simp_all

lemma acquiredAt_append:
  "acquiredAt e (evs @ [ev]) i \<longleftrightarrow> acquiredAt e evs i \<or> (i = length evs \<and> acquires e i ev)"
  by (auto simp: acquiredAt_def nth_append)

lemma none_acquired_tolerant:
  "tolerant (\<lambda>s :: sync. (\<forall>i\<ge>n. \<not> acquiredAt e (trace s) i) \<and> (b \<longrightarrow> \<not> syncLock s))"
  by (simp add: tolerant_def acquiredAt_append acquires_quiet)

lemma locked_if_acquired_tolerant:
  "tolerant (\<lambda>s :: sync. (\<exists>i\<ge>n. acquiredAt e (trace s) i) \<longrightarrow> syncLock s)"
  by (auto simp: tolerant_def acquiredAt_append acquires_quiet)

lemma seq_leads:
  assumes "\<And>s. P s \<Longrightarrow> P' (snd (m s))"
    and "\<And>x s. P' s \<Longrightarrow> Q (snd (k x s))"
    and "\<And>s. P' s \<Longrightarrow> Q s"
    and "P s"
  shows "Q (snd (seq m k s))"
  using assms(1)[OF assms(4)] assms(2,3)
  by (auto simp: seq_def split: prod.splits sum.splits)

lemma acquireSyncLock_locks:
  assumes "\<forall>i\<ge>n. \<not> acquiredAt e (trace s) i"
  shows "(\<exists>i\<ge>n. acquiredAt e (trace (snd (acquireSyncLock e s))) i)
           \<longrightarrow> syncLock (snd (acquireSyncLock e s))"
  using assms
  by (auto simp: acquireSyncLock_def seq_def gets_def perform_def modify_def emit_def
      record_event_def acquiredAt_append split: option.splits)

lemma phases_lock:
  assumes "\<forall>i\<ge>n. \<not> acquiredAt e (trace s) i" and "\<not> syncLock s"
  shows "(\<exists>i\<ge>n. acquiredAt e (trace (snd (phases e c opts steps lastContext k s))) i)
           \<longrightarrow> syncLock (snd (phases e c opts steps lastContext k s))"
proof -
  let ?P = "\<lambda>s :: sync. (\<forall>i\<ge>n. \<not> acquiredAt e (trace s) i) \<and> (True \<longrightarrow> \<not> syncLock s)"
  let ?Q = "\<lambda>s :: sync. (\<exists>i\<ge>n. acquiredAt e (trace s) i) \<longrightarrow> syncLock s"
  note tP = none_acquired_tolerant[of n e True]
  note tQ = locked_if_acquired_tolerant[of n e]
  have PQ: "?Q s" if "?P s" for s :: sync
    using that by simp
  have rest: "?Q (snd (seq (uploadPhase e c steps)
           (\<lambda>_. seq (deleteRemotePhase e c steps)
           (\<lambda>_. deltaPhase e c opts steps lastContext k)) s))" if "?Q s" for s
    using inv_three_phases[OF tQ, of e c steps opts lastContext k, unfolded inv_def] that
    by (simp add: record_event_def acquiredAt_append)
  have acq: "?Q (snd (seq (acquireSyncLock e)
        (\<lambda>_. seq (uploadPhase e c steps)
           (\<lambda>_. seq (deleteRemotePhase e c steps)
           (\<lambda>_. deltaPhase e c opts steps lastContext k))) s))" if "?P s" for s
    using that
    by (intro seq_leads[where P = ?P and P' = ?Q and Q = ?Q] acquireSyncLock_locks rest) simp_all
  have chk: "?Q (snd (seq (checkTarget e c) (\<lambda>_. seq (acquireSyncLock e)
        (\<lambda>_. seq (uploadPhase e c steps)
           (\<lambda>_. seq (deleteRemotePhase e c steps)
           (\<lambda>_. deltaPhase e c opts steps lastContext k)))) s))" if "?P s" for s
    using that inv_checkTarget[OF tP, of e c, unfolded inv_def]
    by (intro seq_leads[where P = ?P and P' = ?P and Q = ?Q] acq PQ) simp_all
  have tmp: "?Q (snd (seq (emit SetTempDirName) (\<lambda>_. seq (checkTarget e c)
        (\<lambda>_. seq (acquireSyncLock e)
        (\<lambda>_. seq (uploadPhase e c steps)
           (\<lambda>_. seq (deleteRemotePhase e c steps)
           (\<lambda>_. deltaPhase e c opts steps lastContext k))))) s))" if "?P s" for s
    using that inv_emit[OF tP, of SetTempDirName, unfolded inv_def]
    by (intro seq_leads[where P = ?P and P' = ?P and Q = ?Q] chk PQ) simp_all
  have "?Q (snd (phases e c opts steps lastContext k s))" if "?P s" for s
    unfolding phases_def
    using that inv_perform[OF tP, of ApiInitialize e, unfolded inv_def]
    by (intro seq_leads[where P = ?P and P' = ?P and Q = ?Q] tmp PQ) simp_all
  then show ?thesis
    using assms by simp
qed

lemma invD: "inv P m \<Longrightarrow> P s \<Longrightarrow> m s = (r, s') \<Longrightarrow> P s'"
  by (auto simp: inv_def)

lemma run_reaches_finish:
  assumes "\<forall>n. outcome e n MasterKeyCount = None"
    and "\<forall>n. outcome e n UpdateAllShareIds = None"
    and "steady P" and "P s"
    and "\<forall>i\<ge>n. \<not> acquiredAt e (trace s) i"
  shows "\<exists>err s1. run e c opts s = finish e c (syncStepsOf opts) err s1 \<and> P s1
           \<and> ((\<exists>i\<ge>n. acquiredAt e (trace s1) i) \<longrightarrow> syncLock s1)
           \<and> (\<not> opt_throwOnError opts \<longrightarrow> err = None)"
proof -
  let ?N = "\<lambda>s :: sync. (\<forall>i\<ge>n. \<not> acquiredAt e (trace s) i) \<and> (False \<longrightarrow> \<not> syncLock s)"
  let ?U = "\<lambda>s :: sync. (\<forall>i\<ge>n. \<not> acquiredAt e (trace s) i) \<and> (True \<longrightarrow> \<not> syncLock s)"
  let ?Q = "\<lambda>s :: sync. (\<exists>i\<ge>n. acquiredAt e (trace s) i) \<longrightarrow> syncLock s"
  note t = steady_tolerant[OF assms(3)]
  note tN = none_acquired_tolerant[of n e False]
  note tU = none_acquired_tolerant[of n e True]
  note tQ = locked_if_acquired_tolerant[of n e]
  obtain sa where a: "announce e c opts s = (Inr (masterKeyCount e), sa)"
    using announce_result[OF assms(1), of c opts s] by (cases "announce e c opts s") simp
  have Pa: "P sa"
    by (rule invD[OF inv_announce[OF t steady_fields(2)[OF assms(3)]] assms(4) a])
  have iN: "inv ?N (announce e c opts)"
    by (rule inv_announce[OF tN]) simp
  have N0: "?N s"
    using assms(5) by simp
  have "?N sa"
    using iN N0 a by (rule invD)
  moreover have "\<not> syncLock sa"
    using announce_unlocks[OF assms(1), of c opts s] a by simp
  ultimately have Ua: "?U sa" by simp
  obtain sb where b: "prepare e sa = (Inr (), sb)"
    using prepare_result[OF assms(2), of sa] by (cases "prepare e sa") simp
  have Pb: "P sb"
    by (rule invD[OF inv_prepare[OF t] Pa b])
  have Ub: "?U sb"
    by (rule invD[OF inv_prepare[OF tU] Ua b])
  let ?ph = "phases e c opts (syncStepsOf opts) (lastContextOf opts) (masterKeyCount e)"
  obtain tried sc where ph: "?ph sb = (tried, sc)"
    by (cases "?ph sb")
  have Pc: "P sc"
    by (rule invD[OF inv_phases[OF assms(3)] Pb ph])
  have Qc: "?Q sc"
    using phases_lock[of n e sb c opts "syncStepsOf opts" "lastContextOf opts" "masterKeyCount e"]
      Ub ph by simp
  let ?h = "case tried of Inl error \<Rightarrow> handleError c (opt_throwOnError opts) error
            | Inr _ \<Rightarrow> ret None"
  obtain err sd where h: "?h sc = (Inr err, sd)"
    and e: "\<not> opt_throwOnError opts \<longrightarrow> err = None"
  proof (cases tried)
    case (Inl error)
    then show ?thesis
      using handleError_result[of c "opt_throwOnError opts" error sc] that
      by (cases "handleError c (opt_throwOnError opts) error sc") auto
  next
    case (Inr u)
    then show ?thesis using that by (simp add: ret_def)
  qed
  have iP: "inv P ?h"
    using t by (intro inv_rules)
  have Pd: "P sd"
    using iP Pc h by (rule invD)
  have iQ: "inv ?Q ?h"
    using tQ by (intro inv_rules)
  have Qd: "?Q sd"
    using iQ Qc h by (rule invD)
  have "run e c opts s = finish e c (syncStepsOf opts) err sd"
    using a b ph h by (simp add: run_def seq_def attempt_def)
  with Pd Qd e show ?thesis by blast
qed

lemma run_throws:
  assumes "\<not> opt_throwOnError opts" and "fst (run e c opts s) = Inl err"
  shows "\<exists>n. outcome e n MasterKeyCount = Some err \<or> outcome e n UpdateAllShareIds = Some err
           \<or> (\<exists>a b. outcome e n (ReleaseLock LockSync a b) = Some err)
           \<or> outcome e n LogSyncSummary = Some err"
proof (cases "announce e c opts s")
  case a: (Pair ra sa)
  show ?thesis
  proof (cases ra)
    case (Inl x)
    then show ?thesis
      using assms(2) a announce_throws[of e c opts s err] by (auto simp: run_def seq_def)
  next
    case mk: (Inr masterKeysBefore)
    show ?thesis
    proof (cases "prepare e sa")
      case b: (Pair rb sb)
      show ?thesis
      proof (cases rb)
        case (Inl x)
        then show ?thesis
          using assms(2) a mk b prepare_throws[of e sa err] by (auto simp: run_def seq_def)
      next
        case u: (Inr u)
        let ?ph = "phases e c opts (syncStepsOf opts) (lastContextOf opts) masterKeysBefore"
        obtain tried sc where ph: "?ph sb = (tried, sc)"
          by (cases "?ph sb")
        let ?h = "case tried of Inl error \<Rightarrow> handleError c (opt_throwOnError opts) error
                  | Inr _ \<Rightarrow> ret None"
        obtain sd where h: "?h sc = (Inr None, sd)"
        proof (cases tried)
          case (Inl error)
          then show ?thesis
            using handleError_result[of c "opt_throwOnError opts" error sc] that assms(1)
            by (cases "handleError c (opt_throwOnError opts) error sc") auto
        next
          case (Inr v)
          then show ?thesis using that by (simp add: ret_def)
        qed
        have "run e c opts s = finish e c (syncStepsOf opts) None sd"
          using a mk b u ph h by (simp add: run_def seq_def attempt_def)
        then show ?thesis
          using assms(2) finish_throws[of e c "syncStepsOf opts" sd err] by auto
      qed
    qed
  qed
qed

subsection \<open>Two runs\<close>

lemmas start_defs =
  start_def enter_def run_def announce_def prepare_def phases_def checkTarget_def
  acquireSyncLock_def uploadPhase_def uploadBatch_def deleteRemotePhase_def deltaPhase_def
  deltaPage_def saveContext_def recordDelta_def handleError_def finish_def releaseSyncLock_def
  complete_def lastContextOf_def syncStepsOf_def isFullSync_def reportHasErrors_def
  deltaToSave_def pushError_def

text \<open>
  A run on a target that works, with nothing to synchronize, at the end of which the lock
  handler fails to release the lock.
\<close>

lemma stuck_run:
  "fst (start stuck exampleCollab exampleOptions (newSynchronizer ''desktop'' ''client'')) =
     Inl (newJoplinError ''lock file busy'' ''EBUSY'')"
  "state' (snd (start stuck exampleCollab exampleOptions (newSynchronizer ''desktop'' ''client'')))
     = ''in_progress''"
  "acquiredAt stuck
     (trace (snd (start stuck exampleCollab exampleOptions (newSynchronizer ''desktop'' ''client''))))
     11"
  "last (trace (snd (start stuck exampleCollab exampleOptions
     (newSynchronizer ''desktop'' ''client'')))) = Call (ReleaseLock LockSync ''desktop'' ''client'')"
  by (simp_all add: start_defs run_defs example_defs acquiredAt_def Let_def
      cong: prod.case_cong_weak sum.case_cong_weak option.case_cong_weak)

text \<open>A run on a target that cannot be reached: the delta phase fails, the error is caught.\<close>

lemma offline_run:
  "acquiredAt offline
     (trace (snd (start offline exampleCollab exampleOptions
        (newSynchronizer ''desktop'' ''client'')))) 11"
  by (simp add: start_defs run_defs example_defs acquiredAt_def Let_def
      cong: prod.case_cong_weak sum.case_cong_weak option.case_cong_weak)

subsection \<open>The upload phase\<close>

text \<open>
  Claim C1, as amended. In the upload phase the remote item of a local item is the result of
  \<open>stat\<close> on its path, and null without any call when the item was never synced. Without a
  remote the action is \<open>createRemote\<close> when \<open>sync_time\<close> is 0 and the conflict of the
  item's type when it is positive. With a remote, \<open>get\<close> is called on the path:

  \<^item> if it returns a content that is not empty and the content is unserialized, the action
    is the conflict of the item's type when the remote \<open>updated_time\<close> is greater than the
    local \<open>sync_time\<close>, and \<open>updateRemote\<close> otherwise;
  \<^item> if it fails with \<open>rejectedByTarget\<close>, no action is decided: the error is added to the
    report, a warning is logged, and the item is skipped;
  \<^item> if it fails with another error, returns no content or an empty one, or the content
    cannot be unserialized, the error is thrown.

  The conflict is \<open>noteConflict\<close> for a note, \<open>resourceConflict\<close> for a resource and
  \<open>itemConflict\<close> for any other item.
\<close>

theorem decideAction_cases:
  "(id' local \<in> set neverSynced \<longrightarrow> statRemote e neverSynced local path s = (Inr None, s))
   \<and> (id' local \<notin> set neverSynced \<longrightarrow>
        statRemote e neverSynced local path s =
          awaitApiCall e (ApiStat path) (\<lambda>n. stat_result e n path) s)
   \<and> (sync_time local = 0 \<longrightarrow>
        decideAction e c local None path s = (Inr (Decided ''createRemote'' None), s))
   \<and> (sync_time local > 0 \<longrightarrow>
        decideAction e c local None path s = (Inr (Decided (getConflictType local) None), s))
   \<and> (awaitApiCall e (ApiGet path) (\<lambda>n. get_result e n path) s = (Inr (Some content), s1)
        \<and> content \<noteq> [] \<and> outcome e (length (trace s1)) (Unserialize content) = None \<longrightarrow>
        decideAction e c local (Some remote) path s =
          (Inr (Decided (if updated_time (unserialize c content) > sync_time local
                         then getConflictType local else ''updateRemote'')
                  (Some (unserialize c content))),
           record_event (Call (Unserialize content)) s1))
   \<and> (awaitApiCall e (ApiGet path) (\<lambda>n. get_result e n path) s = (Inr (Some content), s1)
        \<and> content \<noteq> [] \<and> outcome e (length (trace s1)) (Unserialize content) = Some error
      \<longrightarrow>
        decideAction e c local (Some remote) path s =
          (Inl error, record_event (Call (Unserialize content)) s1))
   \<and> (awaitApiCall e (ApiGet path) (\<lambda>n. get_result e n path) s = (Inr fetched, s1)
        \<and> (fetched = None \<or> fetched = Some []) \<longrightarrow>
        decideAction e c local (Some remote) path s =
          (Inl (newJoplinError
                  (''Got metadata for path but could not fetch content: '' @ path) []), s1))
   \<and> (awaitApiCall e (ApiGet path) (\<lambda>n. get_result e n path) s = (Inl error, s1)
        \<and> code error = ''rejectedByTarget'' \<longrightarrow>
        decideAction e c local (Some remote) path s =
          (Inr Rejected, record_event (Log ''warn'') (pushError (ErrorObject error) s1)))
   \<and> (awaitApiCall e (ApiGet path) (\<lambda>n. get_result e n path) s = (Inl error, s1)
        \<and> code error \<noteq> ''rejectedByTarget'' \<longrightarrow>
        decideAction e c local (Some remote) path s = (Inl error, s1))
   \<and> getConflictType local =
        (if type' local = TYPE_NOTE then ''noteConflict''
         else if type' local = TYPE_RESOURCE then ''resourceConflict'' else ''itemConflict'')"
  by (auto simp: statRemote_def decideAction_def ret_def seq_def attempt_def throw_def modify_def
      emit_def ask_def getConflictType_def)

theorem decideAction_cases_witness:
  "id' exampleNote \<in> set [''n1'']
   \<and> statRemote exampleEnv [''n1''] exampleNote ''n1.md'' running = (Inr None, running)
   \<and> sync_time exampleNote = 0
   \<and> decideAction exampleEnv exampleCollab exampleNote None ''n1.md'' running =
       (Inr (Decided ''createRemote'' None), running)
   \<and> sync_time (exampleResource\<lparr>sync_time := 7\<rparr>) > 0
   \<and> decideAction exampleEnv exampleCollab (exampleResource\<lparr>sync_time := 7\<rparr>) None ''r1.md''
         running =
       (Inr (Decided ''resourceConflict'' None), running)
   \<and> fst (awaitApiCall (exampleEnv\<lparr>get_result := (\<lambda>n path. Some ''n1'')\<rparr>) (ApiGet ''n1.md'')
            (\<lambda>n. get_result (exampleEnv\<lparr>get_result := (\<lambda>n path. Some ''n1'')\<rparr>) n ''n1.md'')
            running) = Inr (Some ''n1'')
   \<and> fst (decideAction (exampleEnv\<lparr>get_result := (\<lambda>n path. Some ''n1'')\<rparr>) exampleCollab
            (exampleNote\<lparr>sync_time := 7\<rparr>) (Some exampleRemote) ''n1.md'' running) =
       Inr (Decided ''noteConflict'' (Some exampleNote))
   \<and> fst (decideAction (exampleEnv\<lparr>get_result := (\<lambda>n path. Some ''n1'')\<rparr>) exampleCollab
            (exampleNote\<lparr>sync_time := 20\<rparr>) (Some exampleRemote) ''n1.md'' running) =
       Inr (Decided ''updateRemote'' (Some exampleNote))
   \<and> fst (awaitApiCall refusing (ApiGet ''n1.md'') (\<lambda>n. get_result refusing n ''n1.md'') running)
       = Inl (newJoplinError ''forbidden'' ''rejectedByTarget'')
   \<and> fst (decideAction refusing exampleCollab (exampleNote\<lparr>sync_time := 7\<rparr>) (Some exampleRemote)
            ''n1.md'' running) = Inr Rejected
   \<and> fst (awaitApiCall exampleEnv (ApiGet ''n1.md'') (\<lambda>n. get_result exampleEnv n ''n1.md'')
            running) = Inr None
   \<and> fst (decideAction exampleEnv exampleCollab (exampleNote\<lparr>sync_time := 7\<rparr>)
            (Some exampleRemote) ''n1.md'' running) =
       Inl (newJoplinError ''Got metadata for path but could not fetch content: n1.md'' [])"
proof -
  let ?e = "exampleEnv\<lparr>get_result := (\<lambda>n path. Some ''n1'')\<rparr>"
  let ?no = "newJoplinError ''forbidden'' ''rejectedByTarget''"
  have never: "id' exampleNote \<in> set [''n1'']"
    and new: "sync_time exampleNote = 0"
    and old: "sync_time (exampleResource\<lparr>sync_time := 7\<rparr>) > 0"
    by (simp_all add: example_defs)
  obtain s1 where got: "awaitApiCall ?e (ApiGet ''n1.md'') (\<lambda>n. get_result ?e n ''n1.md'') running
      = (Inr (Some ''n1''), s1)"
    by (simp add: run_defs example_defs)
  have read: "outcome ?e (length (trace s1)) (Unserialize ''n1'') = None"
    by (simp add: example_defs)
  have same: "unserialize exampleCollab ''n1'' = exampleNote"
    by (simp add: example_defs)
  obtain s2 where refused: "awaitApiCall refusing (ApiGet ''n1.md'')
      (\<lambda>n. get_result refusing n ''n1.md'') running = (Inl ?no, s2)"
    by (simp add: run_defs example_defs)
  have code: "code ?no = ''rejectedByTarget''"
    by (simp add: newJoplinError_def)
  obtain s3 where empty: "awaitApiCall exampleEnv (ApiGet ''n1.md'')
      (\<lambda>n. get_result exampleEnv n ''n1.md'') running = (Inr None, s3)"
    by (simp add: run_defs example_defs)
  from never new old got read refused code empty
    decideAction_cases[where local = exampleNote and e = exampleEnv and c = exampleCollab
        and path = "''n1.md''" and s = running and neverSynced = "[''n1'']"]
    decideAction_cases[where local = "exampleResource\<lparr>sync_time := 7\<rparr>" and e = exampleEnv
        and c = exampleCollab and path = "''r1.md''" and s = running]
    decideAction_cases[where local = "exampleNote\<lparr>sync_time := 7\<rparr>" and e = ?e
        and c = exampleCollab and path = "''n1.md''" and s = running and content = "''n1''"
        and ?s1.0 = s1 and remote = exampleRemote]
    decideAction_cases[where local = "exampleNote\<lparr>sync_time := 20\<rparr>" and e = ?e
        and c = exampleCollab and path = "''n1.md''" and s = running and content = "''n1''"
        and ?s1.0 = s1 and remote = exampleRemote]
    decideAction_cases[where local = "exampleNote\<lparr>sync_time := 7\<rparr>" and e = refusing
        and c = exampleCollab and path = "''n1.md''" and s = running and error = ?no
        and ?s1.0 = s2 and remote = exampleRemote]
    decideAction_cases[where local = "exampleNote\<lparr>sync_time := 7\<rparr>" and e = exampleEnv
        and c = exampleCollab and path = "''n1.md''" and s = running and fetched = None
        and ?s1.0 = s3 and remote = exampleRemote]
  show ?thesis
    by (simp add: same) (simp add: example_defs)
qed

text \<open>
  A note that was synced before and whose remote exists, on a target that rejects the
  \<open>get\<close>: the result is neither a conflict nor \<open>updateRemote\<close>, no action is decided.
\<close>

theorem decideAction_rejected:
  "sync_time (exampleNote\<lparr>sync_time := 7\<rparr>) > 0
   \<and> fst (decideAction refusing exampleCollab (exampleNote\<lparr>sync_time := 7\<rparr>) (Some exampleRemote)
            ''n1.md'' running) = Inr Rejected
   \<and> donePaths (snd (syncLocalItem refusing exampleCollab [] (exampleNote\<lparr>sync_time := 7\<rparr>)
                        ''n1.md'' running)) = [''n1.md'']
   \<and> counters (progressReport' (snd (syncLocalItem refusing exampleCollab []
        (exampleNote\<lparr>sync_time := 7\<rparr>) ''n1.md'' running)))
        ''updateRemote'' = 0
   \<and> counters (progressReport' (snd (syncLocalItem refusing exampleCollab []
        (exampleNote\<lparr>sync_time := 7\<rparr>) ''n1.md'' running)))
        ''noteConflict'' = 0"
  by (simp add: decideAction_def syncLocalItem_def statRemote_def pushError_def
      completeItemProcessing_def run_defs example_defs)

text \<open>
  Claim C2, as amended. Let the action be \<open>createRemote\<close> or \<open>updateRemote\<close>, and \<open>local\<close>
  the item as the code has it then (for a resource, the one that \<open>fullPathForSyncUpload\<close>
  returned).

  \<^item> If the upload returns, \<open>saveSyncTime\<close> is called next, for this target and this item,
    with \<open>local.updated_time\<close>; the iteration fails only if that call fails.
  \<^item> If the upload is rejected by the target (by the testing hook, or by an error of the
    uploader with the code \<open>rejectedByTarget\<close>), \<open>saveSyncTime\<close> is not called.
  \<^item> If the upload fails with any other error, the error is thrown right away and
    \<open>saveSyncTime\<close> is not called either.
\<close>

theorem upload_saves_sync_time:
  assumes "act = ''createRemote'' \<or> act = ''updateRemote''"
  shows
    "(\<not> (''notesRejectedByTarget'' \<in> set (testingHooks' s) \<and> type' local = TYPE_NOTE)
      \<and> outcome e (length (trace s)) (SerializeAndUploadItem path local) = None \<longrightarrow>
        applyUploadAction e c (Some act) local remote remoteContent path s =
          ((case outcome e (Suc (length (trace s)))
                  (SaveSyncTime (syncTargetId c) local (updated_time local)) of
              None \<Rightarrow> Inr ()
            | Some error \<Rightarrow> Inl error),
           s\<lparr>trace := trace s @
                [Call (SerializeAndUploadItem path local),
                 Call (SaveSyncTime (syncTargetId c) local (updated_time local))]\<rparr>))
     \<and> ((''notesRejectedByTarget'' \<in> set (testingHooks' s) \<and> type' local = TYPE_NOTE)
         \<or> (\<exists>error. outcome e (length (trace s)) (SerializeAndUploadItem path local) = Some error
               \<and> code error = ''rejectedByTarget'') \<longrightarrow>
        (\<forall>target it time. Call (SaveSyncTime target it time)
           \<notin> set (newEvents s
                 (snd (applyUploadAction e c (Some act) local remote remoteContent path s)))))
     \<and> (\<not> (''notesRejectedByTarget'' \<in> set (testingHooks' s) \<and> type' local = TYPE_NOTE)
         \<and> outcome e (length (trace s)) (SerializeAndUploadItem path local) = Some error
         \<and> code error \<noteq> ''rejectedByTarget'' \<longrightarrow>
        applyUploadAction e c (Some act) local remote remoteContent path s =
          (Inl error, s\<lparr>trace := trace s @ [Call (SerializeAndUploadItem path local)]\<rparr>))"
  using assms
  by (auto simp: applyUploadAction_def uploadMetadata_def handleCannotSyncItem_def newEvents_def
      run_defs split: option.splits)

theorem upload_saves_sync_time_witness:
  "\<not> (''notesRejectedByTarget'' \<in> set (testingHooks' running) \<and> type' exampleNote = TYPE_NOTE)
   \<and> outcome exampleEnv (length (trace running)) (SerializeAndUploadItem ''n1.md'' exampleNote) = None
   \<and> applyUploadAction exampleEnv exampleCollab (Some ''createRemote'') exampleNote None None
         ''n1.md'' running =
       (Inr (),
        running\<lparr>trace := trace running @
           [Call (SerializeAndUploadItem ''n1.md'' exampleNote),
            Call (SaveSyncTime (syncTargetId exampleCollab) exampleNote
                    (updated_time exampleNote))]\<rparr>)
   \<and> (\<exists>error. outcome rejecting (length (trace running))
                   (SerializeAndUploadItem ''n1.md'' exampleNote) = Some error
                 \<and> code error = ''rejectedByTarget'')
   \<and> (\<forall>target it time. Call (SaveSyncTime target it time)
          \<notin> set (newEvents running
                (snd (applyUploadAction rejecting exampleCollab (Some ''createRemote'')
                        exampleNote None None ''n1.md'' running))))
   \<and> outcome dropping (length (trace running)) (SerializeAndUploadItem ''n1.md'' exampleNote) =
       Some (newJoplinError ''socket hang up'' ''ECONNRESET'')
   \<and> code (newJoplinError ''socket hang up'' ''ECONNRESET'') \<noteq> ''rejectedByTarget''
   \<and> applyUploadAction dropping exampleCollab (Some ''createRemote'') exampleNote None None
         ''n1.md'' running =
       (Inl (newJoplinError ''socket hang up'' ''ECONNRESET''),
        running\<lparr>trace := trace running @ [Call (SerializeAndUploadItem ''n1.md'' exampleNote)]\<rparr>)"
proof -
  let ?hung = "newJoplinError ''socket hang up'' ''ECONNRESET''"
  have hook: "\<not> (''notesRejectedByTarget'' \<in> set (testingHooks' running)
      \<and> type' exampleNote = TYPE_NOTE)"
    by (simp add: example_defs)
  have accepted: "outcome exampleEnv (length (trace running))
      (SerializeAndUploadItem ''n1.md'' exampleNote) = None"
    and saved: "outcome exampleEnv (Suc (length (trace running)))
      (SaveSyncTime (syncTargetId exampleCollab) exampleNote (updated_time exampleNote)) = None"
    by (simp_all add: example_defs)
  have rejected: "\<exists>error. outcome rejecting (length (trace running))
      (SerializeAndUploadItem ''n1.md'' exampleNote) = Some error
      \<and> code error = ''rejectedByTarget''"
    by (simp add: example_defs newJoplinError_def)
  have dropped: "outcome dropping (length (trace running))
      (SerializeAndUploadItem ''n1.md'' exampleNote) = Some ?hung"
    and other: "code ?hung \<noteq> ''rejectedByTarget''"
    by (simp_all add: example_defs newJoplinError_def)
  have act: "''createRemote'' = ''createRemote'' \<or> ''createRemote'' = ''updateRemote''"
    by simp
  have first: "applyUploadAction exampleEnv exampleCollab (Some ''createRemote'') exampleNote
      None None ''n1.md'' running =
       (Inr (),
        running\<lparr>trace := trace running @
           [Call (SerializeAndUploadItem ''n1.md'' exampleNote),
            Call (SaveSyncTime (syncTargetId exampleCollab) exampleNote
                    (updated_time exampleNote))]\<rparr>)"
    using hook accepted saved
      upload_saves_sync_time[OF act, where s = running and local = exampleNote
        and e = exampleEnv and path = "''n1.md''" and c = exampleCollab and remote = None
        and remoteContent = None]
    by simp
  have third: "applyUploadAction dropping exampleCollab (Some ''createRemote'') exampleNote
      None None ''n1.md'' running =
       (Inl ?hung,
        running\<lparr>trace := trace running @ [Call (SerializeAndUploadItem ''n1.md'' exampleNote)]\<rparr>)"
    using hook dropped other
      upload_saves_sync_time[OF act, where s = running and local = exampleNote
        and e = dropping and path = "''n1.md''" and c = exampleCollab and remote = None
        and remoteContent = None and error = ?hung]
    by simp
  show ?thesis
    using hook accepted rejected dropped other first third
      upload_saves_sync_time[OF act, where s = running and local = exampleNote
        and e = rejecting and path = "''n1.md''" and c = exampleCollab and remote = None
        and remoteContent = None]
    by blast
qed

text \<open>
  An upload that fails with \<open>ECONNRESET\<close> did not fail with \<open>rejectedByTarget\<close>, and yet no
  sync time is saved: the only call made is the upload, and its error is thrown.
\<close>

theorem upload_dropped:
  "outcome dropping (length (trace running)) (SerializeAndUploadItem ''n1.md'' exampleNote) =
     Some (newJoplinError ''socket hang up'' ''ECONNRESET'')
   \<and> code (newJoplinError ''socket hang up'' ''ECONNRESET'') \<noteq> ''rejectedByTarget''
   \<and> applyUploadAction dropping exampleCollab (Some ''createRemote'') exampleNote None None
         ''n1.md'' running =
       (Inl (newJoplinError ''socket hang up'' ''ECONNRESET''),
        running\<lparr>trace := [Call (SerializeAndUploadItem ''n1.md'' exampleNote)]\<rparr>)"
  by (simp add: applyUploadAction_def uploadMetadata_def run_defs example_defs)

lemma applyUploadAction_None:
  "applyUploadAction e c None local remote remoteContent path s = (Inr (), s)"
  by (simp add: applyUploadAction_def seq_def ret_def)

text \<open>
  Claim C7. For a resource with action \<open>createRemote\<close> or \<open>updateRemote\<close> the local state
  is read first. If it has a \<open>fetch_status\<close> other than \<open>DONE\<close>, all that is done is to
  mark the item as disabled for this target (and to announce it, when the store accepted the
  mark): the action is cleared, so neither the blob nor the metadata is uploaded. If the local
  state cannot be read, the error is thrown and nothing else is done. So a \<open>put\<close> of the
  blob or an upload of the metadata only happens after the local state was read as \<open>DONE\<close>.
\<close>

theorem resource_needs_blob:
  assumes "type' local = TYPE_RESOURCE" and "act = ''createRemote'' \<or> act = ''updateRemote''"
  shows
    "(outcome e (length (trace s)) (ResourceLocalState (id' local)) = None
      \<and> localState_result e (length (trace s)) (id' local) \<noteq> FETCH_STATUS_DONE \<longrightarrow>
        newEvents s (snd (uploadDecided e c local act remote remoteContent path s)) =
          [Call (ResourceLocalState (id' local)), Log ''info'',
           Call (SaveSyncDisabled (syncTargetId c) local
                   ''Trying to upload resource, but only metadata is present.'' False)]
          @ (if outcome e (length (trace s) + 2)
                  (SaveSyncDisabled (syncTargetId c) local
                     ''Trying to upload resource, but only metadata is present.'' False) = None
             then [Dispatch SYNC_HAS_DISABLED_SYNC_ITEMS] else []))
     \<and> (outcome e (length (trace s)) (ResourceLocalState (id' local)) = Some error \<longrightarrow>
        uploadDecided e c local act remote remoteContent path s =
          (Inl error, record_event (Call (ResourceLocalState (id' local))) s))
     \<and> ((\<exists>remotePath localPath shareId. Api (ApiPut remotePath localPath shareId)
            \<in> set (newEvents s (snd (uploadDecided e c local act remote remoteContent path s))))
         \<or> (\<exists>p it. Call (SerializeAndUploadItem p it)
            \<in> set (newEvents s (snd (uploadDecided e c local act remote remoteContent path s))))
         \<longrightarrow> outcome e (length (trace s)) (ResourceLocalState (id' local)) = None
            \<and> localState_result e (length (trace s)) (id' local) = FETCH_STATUS_DONE)"
proof -
  have cleared:
    "outcome e (length (trace s)) (ResourceLocalState (id' local)) = None
      \<and> localState_result e (length (trace s)) (id' local) \<noteq> FETCH_STATUS_DONE \<Longrightarrow>
        newEvents s (snd (uploadDecided e c local act remote remoteContent path s)) =
          [Call (ResourceLocalState (id' local)), Log ''info'',
           Call (SaveSyncDisabled (syncTargetId c) local
                   ''Trying to upload resource, but only metadata is present.'' False)]
          @ (if outcome e (length (trace s) + 2)
                  (SaveSyncDisabled (syncTargetId c) local
                     ''Trying to upload resource, but only metadata is present.'' False) = None
             then [Dispatch SYNC_HAS_DISABLED_SYNC_ITEMS] else [])"
    using assms
    by (auto simp: uploadDecided_def uploadResourceBlob_def handleCannotSyncItem_def
        applyUploadAction_None newEvents_def ret_def seq_def ask_def perform_def emit_def
        modify_def record_event_def split: option.splits)
  have failed: "outcome e (length (trace s)) (ResourceLocalState (id' local)) \<noteq> None \<Longrightarrow>
      newEvents s (snd (uploadDecided e c local act remote remoteContent path s)) =
        [Call (ResourceLocalState (id' local))]"
    using assms
    by (auto simp: uploadDecided_def uploadResourceBlob_def newEvents_def seq_def ask_def
        record_event_def split: option.splits)
  have thrown: "outcome e (length (trace s)) (ResourceLocalState (id' local)) = Some error \<longrightarrow>
        uploadDecided e c local act remote remoteContent path s =
          (Inl error, record_event (Call (ResourceLocalState (id' local))) s)"
    using assms
    by (auto simp: uploadDecided_def uploadResourceBlob_def seq_def ask_def)
  have only: "(\<exists>remotePath localPath shareId. Api (ApiPut remotePath localPath shareId)
            \<in> set (newEvents s (snd (uploadDecided e c local act remote remoteContent path s))))
         \<or> (\<exists>p it. Call (SerializeAndUploadItem p it)
            \<in> set (newEvents s (snd (uploadDecided e c local act remote remoteContent path s))))
         \<longrightarrow> outcome e (length (trace s)) (ResourceLocalState (id' local)) = None
            \<and> localState_result e (length (trace s)) (id' local) = FETCH_STATUS_DONE"
    using cleared failed
    by (cases "outcome e (length (trace s)) (ResourceLocalState (id' local)) = None";
        cases "localState_result e (length (trace s)) (id' local) = FETCH_STATUS_DONE")
      (auto split: if_splits)
  show ?thesis
    using cleared thrown only by blast
qed

theorem resource_needs_blob_witness:
  "type' exampleResource = TYPE_RESOURCE
   \<and> outcome (exampleEnv\<lparr>localState_result := (\<lambda>n i. FETCH_STATUS_IDLE)\<rparr>)
         (length (trace running)) (ResourceLocalState (id' exampleResource)) = None
   \<and> localState_result (exampleEnv\<lparr>localState_result := (\<lambda>n i. FETCH_STATUS_IDLE)\<rparr>)
         (length (trace running)) (id' exampleResource) \<noteq> FETCH_STATUS_DONE
   \<and> newEvents running
         (snd (uploadDecided (exampleEnv\<lparr>localState_result := (\<lambda>n i. FETCH_STATUS_IDLE)\<rparr>)
                 exampleCollab exampleResource ''updateRemote'' None None ''r1.md'' running)) =
       [Call (ResourceLocalState ''r1''), Log ''info'',
        Call (SaveSyncDisabled 7 exampleResource
                ''Trying to upload resource, but only metadata is present.'' False),
        Dispatch SYNC_HAS_DISABLED_SYNC_ITEMS]
   \<and> Api (ApiPut ''.resource/r1'' ''/tmp/blob'' [])
         \<in> set (newEvents running
               (snd (uploadDecided exampleEnv exampleCollab exampleResource ''updateRemote''
                       None None ''r1.md'' running)))
   \<and> localState_result exampleEnv (length (trace running)) (id' exampleResource) =
       FETCH_STATUS_DONE"
proof -
  let ?e = "exampleEnv\<lparr>localState_result := (\<lambda>n i. FETCH_STATUS_IDLE)\<rparr>"
  have resource: "type' exampleResource = TYPE_RESOURCE"
    by (simp add: example_defs)
  have act: "''updateRemote'' = ''createRemote'' \<or> ''updateRemote'' = ''updateRemote''"
    by simp
  have read: "outcome ?e (length (trace running)) (ResourceLocalState (id' exampleResource)) = None"
    and idle: "localState_result ?e (length (trace running)) (id' exampleResource)
      \<noteq> FETCH_STATUS_DONE"
    by (simp_all add: example_defs)
  have marked: "outcome ?e (length (trace running) + 2)
      (SaveSyncDisabled (syncTargetId exampleCollab) exampleResource
         ''Trying to upload resource, but only metadata is present.'' False) = None"
    by (simp add: example_defs)
  have names: "id' exampleResource = ''r1''" "syncTargetId exampleCollab = 7"
    by (simp_all add: example_defs)
  have put: "Api (ApiPut ''.resource/r1'' ''/tmp/blob'' [])
         \<in> set (newEvents running
               (snd (uploadDecided exampleEnv exampleCollab exampleResource ''updateRemote''
                       None None ''r1.md'' running)))"
    by (simp add: uploadDecided_def uploadResourceBlob_def applyUploadAction_def
        uploadMetadata_def resourceRemotePath_def newEvents_def run_defs example_defs
        cong: prod.case_cong_weak sum.case_cong_weak option.case_cong_weak)
  from resource_needs_blob[OF resource act, where e = ?e and s = running and c = exampleCollab
      and remote = None and remoteContent = None and path = "''r1.md''"]
    read idle marked
  have "newEvents running
         (snd (uploadDecided ?e exampleCollab exampleResource ''updateRemote'' None None
                 ''r1.md'' running)) =
       [Call (ResourceLocalState (id' exampleResource)), Log ''info'',
        Call (SaveSyncDisabled (syncTargetId exampleCollab) exampleResource
                ''Trying to upload resource, but only metadata is present.'' False),
        Dispatch SYNC_HAS_DISABLED_SYNC_ITEMS]"
    by simp
  moreover have "localState_result exampleEnv (length (trace running)) (id' exampleResource) =
       FETCH_STATUS_DONE"
    using put resource_needs_blob[OF resource act, where e = exampleEnv and s = running
      and c = exampleCollab and remote = None and remoteContent = None and path = "''r1.md''"]
    by blast
  ultimately show ?thesis
    using resource read idle put unfolding names by blast
qed

lemma deliver_donePaths: "donePaths (deliver e s) = donePaths s"
proof -
  have "tolerant (\<lambda>s' :: sync. donePaths s' = donePaths s)"
    by (simp add: tolerant_def)
  then show ?thesis
    using tolerant_deliver[of "\<lambda>s' :: sync. donePaths s' = donePaths s" s e] by simp
qed

text \<open>
  Claim C3. When the path of the current item is already in \<open>donePaths\<close>, the body of the
  loop throws \<open>processingPathTwice\<close> and changes nothing, and the loop over the items, unless
  it was cancelled before this item, ends there with this error. Otherwise an iteration that
  completes appends exactly this path. So the paths in \<open>donePaths\<close> stay pairwise distinct
  through every iteration and through the loop over the batches, and they are distinct at
  the end of the upload phase, however it ends.
\<close>

theorem donePaths_distinct:
  "(systemPath c (id' local) \<in> set (donePaths s) \<longrightarrow>
      uploadItem e c neverSynced local s =
        (Inl (processingPathTwice (systemPath c (id' local))), s)
      \<and> code (processingPathTwice (systemPath c (id' local))) = ''processingPathTwice'')
   \<and> (systemPath c (id' local) \<in> set (donePaths s) \<and> \<not> cancelling' (deliver e s) \<longrightarrow>
        uploadItems e c neverSynced (local # rest) s =
          (Inl (processingPathTwice (systemPath c (id' local))), deliver e s))
   \<and> (systemPath c (id' local) \<notin> set (donePaths s)
        \<and> fst (uploadItem e c neverSynced local s) = Inr () \<longrightarrow>
        donePaths (snd (uploadItem e c neverSynced local s)) =
          donePaths s @ [systemPath c (id' local)])
   \<and> (distinct (donePaths s) \<longrightarrow>
        distinct (donePaths (snd (uploadItem e c neverSynced local s)))
        \<and> distinct (donePaths (snd (uploadLoop e c results s))))
   \<and> (''update_remote'' \<in> set syncSteps \<longrightarrow>
        distinct (donePaths (snd (uploadPhase e c syncSteps s))))"
proof -
  have t: "tolerant (\<lambda>s :: sync. distinct (donePaths s))"
    by (simp add: tolerant_def)
  have loop: "systemPath c (id' local) \<in> set (donePaths s) \<and> \<not> cancelling' (deliver e s) \<longrightarrow>
        uploadItems e c neverSynced (local # rest) s =
          (Inl (processingPathTwice (systemPath c (id' local))), deliver e s)"
    using deliver_donePaths[of e s]
    by (simp add: seq_def cancelling_def Let_def uploadItem_unfold)
  show ?thesis
    using inv_uploadItem_distinct[of e c neverSynced local, unfolded inv_def]
      inv_uploadLoop[OF t inv_uploadItem_distinct, of e c results, unfolded inv_def]
      inv_uploadPhase_distinct[of syncSteps e c s]
      syncLocalItem_appends[of e c neverSynced local "systemPath c (id' local)" s]
      loop
    by (simp add: uploadItem_unfold processingPathTwice_def newJoplinError_def)
qed

theorem donePaths_distinct_witness:
  "systemPath exampleCollab (id' exampleNote) \<in> set (donePaths (running\<lparr>donePaths := [''n1.md'']\<rparr>))
   \<and> uploadItem exampleEnv exampleCollab [''n1''] exampleNote (running\<lparr>donePaths := [''n1.md'']\<rparr>) =
       (Inl (processingPathTwice ''n1.md''), running\<lparr>donePaths := [''n1.md'']\<rparr>)
   \<and> \<not> cancelling' (deliver exampleEnv (running\<lparr>donePaths := [''n1.md'']\<rparr>))
   \<and> fst (uploadItems exampleEnv exampleCollab [''n1''] [exampleNote, exampleResource]
            (running\<lparr>donePaths := [''n1.md'']\<rparr>)) = Inl (processingPathTwice ''n1.md'')
   \<and> systemPath exampleCollab (id' exampleNote) \<notin> set (donePaths (running\<lparr>donePaths := [''r1.md'']\<rparr>))
   \<and> fst (uploadItem exampleEnv exampleCollab [''n1''] exampleNote
            (running\<lparr>donePaths := [''r1.md'']\<rparr>)) = Inr ()
   \<and> donePaths (snd (uploadItem exampleEnv exampleCollab [''n1''] exampleNote
                        (running\<lparr>donePaths := [''r1.md'']\<rparr>))) = [''r1.md'', ''n1.md'']
   \<and> distinct (donePaths (running\<lparr>donePaths := [''r1.md'']\<rparr>))
   \<and> distinct (donePaths (snd (uploadLoop exampleEnv exampleCollab
         (LastBatch \<lparr>items = [exampleNote, exampleNote], neverSyncedItemIds = [''n1'']\<rparr>)
         (running\<lparr>donePaths := [''r1.md'']\<rparr>))))
   \<and> ''update_remote'' \<in> set [''update_remote'']
   \<and> distinct (donePaths (snd (uploadPhase exampleEnv exampleCollab [''update_remote''] running)))"
proof -
  let ?done = "running\<lparr>donePaths := [''n1.md'']\<rparr>"
  let ?other = "running\<lparr>donePaths := [''r1.md'']\<rparr>"
  have path: "systemPath exampleCollab (id' exampleNote) = ''n1.md''"
    by (simp add: example_defs)
  have seen: "systemPath exampleCollab (id' exampleNote) \<in> set (donePaths ?done)"
    and fresh: "systemPath exampleCollab (id' exampleNote) \<notin> set (donePaths ?other)"
    and apart: "distinct (donePaths ?other)"
    and went: "\<not> cancelling' (deliver exampleEnv ?done)"
    by (simp_all add: run_defs example_defs)
  have ok: "fst (uploadItem exampleEnv exampleCollab [''n1''] exampleNote ?other) = Inr ()"
    by (simp add: uploadItem_def syncLocalItem_def statRemote_def decideAction_def
        uploadDecided_def uploadResourceBlob_def applyUploadAction_def uploadMetadata_def
        completeItemProcessing_def Let_def run_defs example_defs
        cong: prod.case_cong_weak sum.case_cong_weak option.case_cong_weak)
  from seen fresh apart went ok
    donePaths_distinct[where c = exampleCollab and local = exampleNote and s = ?done
      and e = exampleEnv and neverSynced = "[''n1'']" and rest = "[exampleResource]"]
    donePaths_distinct[where c = exampleCollab and local = exampleNote and s = ?other
      and e = exampleEnv and neverSynced = "[''n1'']"
      and results = "LastBatch \<lparr>items = [exampleNote, exampleNote],
        neverSyncedItemIds = [''n1'']\<rparr>"]
    donePaths_distinct[where c = exampleCollab and s = running and e = exampleEnv
      and syncSteps = "[''update_remote'']"]
  show ?thesis
    unfolding path by simp
qed

subsection \<open>The delta phase\<close>

lemma showNat_limit: "showNat (100 * 1000 * 1000) = ''100000000''"
  by (simp add: digit_def)

text \<open>
  Claim C6, as amended. \<open>maxResourceSize()\<close> is the field \<open>maxResourceSize_\<close> when it is not
  null (it is null after construction, and no method of the class assigns it); otherwise it
  is 100 * 1000 * 1000 on a client of type \<open>mobile\<close> and infinite on any other, and no size
  reaches the infinite limit. A resource that the delta phase is about to create or update
  locally (the action is \<open>createLocal\<close> or \<open>updateLocal\<close> and the content was loaded) and
  whose size is at least the limit is only marked as disabled, with the reason that names
  the limit (and this is announced, when the store accepted the mark): it gets no local
  state, so no fetcher downloads its blob, and it is not saved. A resource for which the
  delta phase decides no action is not marked, whatever its size.
\<close>

theorem large_resource_rejected:
  "maxResourceSize s =
     (case maxResourceSize' s of
        Some limit \<Rightarrow> Some limit
      | None \<Rightarrow> if appType' s = ''mobile'' then Some (100 * 1000 * 1000) else None)
   \<and> \<not> exceeds anySize None
   \<and> exceeds anySize (Some limit) = (anySize \<ge> limit)
   \<and> ((act = ''createLocal'' \<or> act = ''updateLocal'')
        \<and> content = backfillTimes (itemFilter c loaded)
        \<and> type' content = TYPE_RESOURCE \<and> exceeds (size' content) (maxResourceSize s) \<longrightarrow>
        saveLocal e c act loaded masterKeysBefore s =
          (case outcome e (length (trace s))
                  (SaveSyncDisabled (syncTargetId c) content
                     (sizeLimitReason content (maxResourceSize s)) True) of
             None \<Rightarrow>
               (Inr (),
                s\<lparr>trace := trace s @
                     [Call (SaveSyncDisabled (syncTargetId c) content
                              (sizeLimitReason content (maxResourceSize s)) True),
                      Dispatch SYNC_HAS_DISABLED_SYNC_ITEMS]\<rparr>)
           | Some error \<Rightarrow>
               (Inl error,
                s\<lparr>trace := trace s @
                     [Call (SaveSyncDisabled (syncTargetId c) content
                              (sizeLimitReason content (maxResourceSize s)) True)]\<rparr>)))
   \<and> sizeLimitReason content (Some (100 * 1000 * 1000)) =
       ''File \"'' @ title content
         @ ''\" is larger than allowed 100000000 bytes. Beyond this limit, the mobile app would crash.''
   \<and> applyLocalAction e c masterKeysBefore (None, local, remoteContent) s = (Inr (), s)"
proof -
  have limit: "maxResourceSize s =
     (case maxResourceSize' s of
        Some limit \<Rightarrow> Some limit
      | None \<Rightarrow> if appType' s = ''mobile'' then Some (100 * 1000 * 1000) else None)"
    by (simp add: maxResourceSize_def split: option.splits)
  have reached: "\<not> exceeds anySize None" "exceeds anySize (Some limit) = (anySize \<ge> limit)"
    by (simp_all add: exceeds_def)
  have marked: "(act = ''createLocal'' \<or> act = ''updateLocal'')
        \<and> content = backfillTimes (itemFilter c loaded)
        \<and> type' content = TYPE_RESOURCE \<and> exceeds (size' content) (maxResourceSize s) \<longrightarrow>
        saveLocal e c act loaded masterKeysBefore s =
          (case outcome e (length (trace s))
                  (SaveSyncDisabled (syncTargetId c) content
                     (sizeLimitReason content (maxResourceSize s)) True) of
             None \<Rightarrow>
               (Inr (),
                s\<lparr>trace := trace s @
                     [Call (SaveSyncDisabled (syncTargetId c) content
                              (sizeLimitReason content (maxResourceSize s)) True),
                      Dispatch SYNC_HAS_DISABLED_SYNC_ITEMS]\<rparr>)
           | Some error \<Rightarrow>
               (Inl error,
                s\<lparr>trace := trace s @
                     [Call (SaveSyncDisabled (syncTargetId c) content
                              (sizeLimitReason content (maxResourceSize s)) True)]\<rparr>))"
    by (auto simp: saveLocal_def handleCannotSyncItem_def Let_def ret_def seq_def gets_def
        perform_def emit_def modify_def record_event_def split: option.splits)
  have reason: "sizeLimitReason content (Some (100 * 1000 * 1000)) =
       ''File \"'' @ title content
         @ ''\" is larger than allowed 100000000 bytes. Beyond this limit, the mobile app would crash.''"
    by (simp add: sizeLimitReason_def showLimit_def showNat_limit[simplified])
  have idle: "applyLocalAction e c masterKeysBefore (None, local, remoteContent) s = (Inr (), s)"
    by (simp add: applyLocalAction_def Let_def seq_def gets_def ret_def)
  show ?thesis
    using limit reached marked reason idle by blast
qed

theorem large_resource_rejected_witness:
  "maxResourceSize mobile = Some (100 * 1000 * 1000)
   \<and> maxResourceSize running = None
   \<and> maxResourceSize (mobile\<lparr>maxResourceSize' := Some 5\<rparr>) = Some 5
   \<and> exampleResource = backfillTimes (itemFilter exampleCollab exampleResource)
   \<and> type' exampleResource = TYPE_RESOURCE
   \<and> exceeds (size' exampleResource) (maxResourceSize mobile)
   \<and> saveLocal exampleEnv exampleCollab ''createLocal'' exampleResource 0 mobile =
       (Inr (),
        mobile\<lparr>trace := trace mobile @
           [Call (SaveSyncDisabled 7 exampleResource
                    ''File \"video\" is larger than allowed 100000000 bytes. Beyond this limit, the mobile app would crash.''
                    True),
            Dispatch SYNC_HAS_DISABLED_SYNC_ITEMS]\<rparr>)"
proof -
  have limits: "maxResourceSize' mobile = None" "appType' mobile = ''mobile''"
    "maxResourceSize' running = None" "appType' running \<noteq> ''mobile''"
    by (simp_all add: example_defs)
  have content: "exampleResource = backfillTimes (itemFilter exampleCollab exampleResource)"
    by (simp add: backfillTimes_def example_defs)
  have large: "type' exampleResource = TYPE_RESOURCE" "size' exampleResource \<ge> 100 * 1000 * 1000"
    by (simp_all add: example_defs)
  have act: "''createLocal'' = ''createLocal'' \<or> ''createLocal'' = ''updateLocal''"
    by simp
  have accepted: "outcome exampleEnv (length (trace mobile))
      (SaveSyncDisabled (syncTargetId exampleCollab) exampleResource
         (sizeLimitReason exampleResource (Some (100 * 1000 * 1000))) True) = None"
    by (simp add: example_defs)
  have names: "title exampleResource = ''video''" "syncTargetId exampleCollab = 7"
    by (simp_all add: example_defs)
  have mobileLimit: "maxResourceSize mobile = Some (100 * 1000 * 1000)"
    using limits large_resource_rejected[where s = mobile] by simp
  have desktopLimit: "maxResourceSize running = None"
    using limits large_resource_rejected[where s = running] by simp
  have fieldLimit: "maxResourceSize (mobile\<lparr>maxResourceSize' := Some 5\<rparr>) = Some 5"
    using large_resource_rejected[where s = "mobile\<lparr>maxResourceSize' := Some 5\<rparr>"] by simp
  have over: "exceeds (size' exampleResource) (maxResourceSize mobile)"
    using large mobileLimit
      large_resource_rejected[where anySize = "size' exampleResource"
        and limit = "100 * 1000 * 1000"]
    by simp
  have "saveLocal exampleEnv exampleCollab ''createLocal'' exampleResource 0 mobile =
       (Inr (),
        mobile\<lparr>trace := trace mobile @
           [Call (SaveSyncDisabled (syncTargetId exampleCollab) exampleResource
                    (sizeLimitReason exampleResource (Some (100 * 1000 * 1000))) True),
            Dispatch SYNC_HAS_DISABLED_SYNC_ITEMS]\<rparr>)"
    using content large(1) over act accepted mobileLimit
      large_resource_rejected[where s = mobile and act = "''createLocal''"
        and content = exampleResource and c = exampleCollab and loaded = exampleResource
        and e = exampleEnv and masterKeysBefore = 0]
    by simp
  moreover have "sizeLimitReason exampleResource (Some (100 * 1000 * 1000)) =
      ''File \"video\" is larger than allowed 100000000 bytes. Beyond this limit, the mobile app would crash.''"
    using large_resource_rejected[where content = exampleResource] names(1) by simp
  ultimately show ?thesis
    using mobileLimit desktopLimit fieldLimit content large(1) over names(2) by simp
qed

text \<open>
  A mobile client finds on the target a resource of 120 MB that it has itself, with the
  same \<open>updated_time\<close>. The resource is above the limit, the delta phase waits for its
  content and unserializes it, decides no action, and goes on: the resource is not marked as
  disabled.
\<close>

theorem large_resource_not_marked:
  "appType' mobile = ''mobile''
   \<and> maxResourceSize mobile = Some (100 * 1000 * 1000)
   \<and> type' exampleResource = TYPE_RESOURCE
   \<and> exceeds (size' exampleResource) (maxResourceSize mobile)
   \<and> fst (chooseLocalAction resourceQueue resourceCollab (Some exampleResource) resourceRemote
            mobile) = Inr (None, Some exampleResource, Some exampleResource)
   \<and> fst (deltaItem resourceQueue resourceCollab [exampleResource] 0 resourceRemote mobile) =
       Inr ()
   \<and> length (trace (snd (deltaItem resourceQueue resourceCollab [exampleResource] 0
        resourceRemote mobile))) = 5
   \<and> take 1 (trace (snd (deltaItem resourceQueue resourceCollab [exampleResource] 0
        resourceRemote mobile))) = [Log ''info'']
   \<and> drop 3 (trace (snd (deltaItem resourceQueue resourceCollab [exampleResource] 0
        resourceRemote mobile))) =
       [Call (QueueWaitForResult ''r1.md''), Call (Unserialize ''r1'')]"
  by (simp add: maxResourceSize_def exceeds_def deltaItem_def chooseLocalAction_def
      loadContent_def applyLocalAction_def Let_def run_defs example_defs
      cong: prod.case_cong_weak sum.case_cong_weak option.case_cong_weak)

lemma deliver_saved: "savedContexts (trace (deliver e s)) = savedContexts (trace s)"
  using tolerant_deliver[OF saved_tolerant[of "savedContexts (trace s)"], of s e] by simp

lemma deltaPage_saved:
  "deltaPage e c n ctx listResult s = (r, s2) \<Longrightarrow>
   savedContexts (trace s2) = savedContexts (trace s)"
  using inv_deltaPage[OF saved_tolerant[of "savedContexts (trace s)"], of e c n ctx listResult,
      unfolded inv_def]
  by force

lemma saveContext_saved:
  "savedContexts (trace (snd (saveContext opts listResult s))) =
     savedContexts (trace s)
       @ (if opt_saveContextHandler opts then [deltaToSave (page_context listResult)] else [])"
  by (simp add: saveContext_def emit_def modify_def ret_def record_event_def
      savedContexts_append)

lemma deltaLoop_left:
  assumes "cancelling' (deliver e s)"
  shows "deltaLoop e c opts n (LastPage listResult) ctx s = (Inr None, deliver e s)"
    and "deltaLoop e c opts n (MorePages listResult later) ctx s = (Inr None, deliver e s)"
  using assms by (simp_all add: seq_def cancelling_def Let_def ret_def)

lemma deltaLoop_thrown:
  assumes "\<not> cancelling' (deliver e s)"
    and "deltaPage e c n ctx listResult (deliver e s) = (Inl error, s2)"
  shows "deltaLoop e c opts n (LastPage listResult) ctx s = (Inl error, s2)"
    and "deltaLoop e c opts n (MorePages listResult later) ctx s = (Inl error, s2)"
  using assms by (simp_all add: seq_def cancelling_def Let_def ret_def)

lemma deltaLoop_cancelled:
  assumes "\<not> cancelling' (deliver e s)"
    and "deltaPage e c n ctx listResult (deliver e s) = (Inr True, s2)"
  shows "deltaLoop e c opts n (LastPage listResult) ctx s = (Inr None, deliver e s2)"
    and "deltaLoop e c opts n (MorePages listResult later) ctx s = (Inr None, deliver e s2)"
  using assms by (simp_all add: seq_def cancelling_def Let_def ret_def)

lemma deltaLoop_completed:
  assumes "\<not> cancelling' (deliver e s)"
    and "deltaPage e c n ctx listResult (deliver e s) = (Inr False, s2)"
  shows "deltaLoop e c opts n (LastPage listResult) ctx s =
           (Inr (Some (page_context listResult)), snd (saveContext opts listResult s2))"
    and "deltaLoop e c opts n (MorePages listResult later) ctx s =
           deltaLoop e c opts n later (Some (page_context listResult))
             (snd (saveContext opts listResult s2))"
  using assms
  by (simp_all add: seq_def cancelling_def Let_def ret_def saveContext_def emit_def modify_def)

text \<open>
  The contexts given to the handler during the loop are those of the first \<open>k\<close> pages, in
  their order, and the loop yields a new context only after the last page.
\<close>

lemma deltaLoop_saves:
  "\<exists>k\<le>length (pagesOf ps).
      savedContexts (trace (snd (deltaLoop e c opts n ps ctx s))) =
        savedContexts (trace s)
          @ (if opt_saveContextHandler opts
             then map (\<lambda>p. deltaToSave (page_context p)) (take k (pagesOf ps)) else [])
      \<and> (\<forall>newContext. fst (deltaLoop e c opts n ps ctx s) = Inr (Some newContext) \<longrightarrow>
            k = length (pagesOf ps) \<and> newContext = page_context (last (pagesOf ps)))"
proof (induction ps arbitrary: ctx s)
  case (LastPage listResult)
  let ?goal = "\<lambda>k. savedContexts (trace (snd (deltaLoop e c opts n (LastPage listResult) ctx s))) =
        savedContexts (trace s)
          @ (if opt_saveContextHandler opts
             then map (\<lambda>p. deltaToSave (page_context p)) (take k (pagesOf (LastPage listResult)))
             else [])
      \<and> (\<forall>newContext. fst (deltaLoop e c opts n (LastPage listResult) ctx s)
              = Inr (Some newContext) \<longrightarrow>
            k = length (pagesOf (LastPage listResult))
            \<and> newContext = page_context (last (pagesOf (LastPage listResult))))"
  show ?case
  proof (cases "cancelling' (deliver e s)")
    case True
    then have "?goal 0"
      using deltaLoop_left(1)[OF True, of c opts n listResult ctx] deliver_saved[of e s] by simp
    then show ?thesis by (intro exI[of _ 0]) simp
  next
    case False
    obtain r s2 where page: "deltaPage e c n ctx listResult (deliver e s) = (r, s2)"
      by (cases "deltaPage e c n ctx listResult (deliver e s)")
    have kept: "savedContexts (trace s2) = savedContexts (trace s)"
      using deltaPage_saved[OF page] deliver_saved[of e s] by simp
    show ?thesis
    proof (cases r)
      case (Inl error)
      then have "?goal 0"
        using deltaLoop_thrown(1)[OF False, of c n ctx listResult error s2 opts] page kept by simp
      then show ?thesis by (intro exI[of _ 0]) simp
    next
      case (Inr hasCancelled)
      show ?thesis
      proof (cases hasCancelled)
        case True
        then have "?goal 0"
          using deltaLoop_cancelled(1)[OF False, of c n ctx listResult s2 opts] page Inr kept
            deliver_saved[of e s2]
          by simp
        then show ?thesis by (intro exI[of _ 0]) simp
      next
        case whole: False
        then have "?goal 1"
          using deltaLoop_completed(1)[OF False, of c n ctx listResult s2 opts] page Inr kept
            saveContext_saved[of opts listResult s2]
          by simp
        then show ?thesis by (intro exI[of _ 1]) simp
      qed
    qed
  qed
next
  case (MorePages listResult later)
  let ?loop = "deltaLoop e c opts n (MorePages listResult later) ctx s"
  let ?goal = "\<lambda>k. savedContexts (trace (snd ?loop)) =
        savedContexts (trace s)
          @ (if opt_saveContextHandler opts
             then map (\<lambda>p. deltaToSave (page_context p))
                    (take k (pagesOf (MorePages listResult later)))
             else [])
      \<and> (\<forall>newContext. fst ?loop = Inr (Some newContext) \<longrightarrow>
            k = length (pagesOf (MorePages listResult later))
            \<and> newContext = page_context (last (pagesOf (MorePages listResult later))))"
  have some: "pagesOf later \<noteq> []"
    by (cases later) simp_all
  show ?case
  proof (cases "cancelling' (deliver e s)")
    case True
    then have "?goal 0"
      using deltaLoop_left(2)[OF True, of c opts n listResult later ctx] deliver_saved[of e s]
      by simp
    then show ?thesis by (intro exI[of _ 0]) simp
  next
    case False
    obtain r s2 where page: "deltaPage e c n ctx listResult (deliver e s) = (r, s2)"
      by (cases "deltaPage e c n ctx listResult (deliver e s)")
    have kept: "savedContexts (trace s2) = savedContexts (trace s)"
      using deltaPage_saved[OF page] deliver_saved[of e s] by simp
    show ?thesis
    proof (cases r)
      case (Inl error)
      then have "?goal 0"
        using deltaLoop_thrown(2)[OF False, of c n ctx listResult error s2 opts later] page kept
        by simp
      then show ?thesis by (intro exI[of _ 0]) simp
    next
      case (Inr hasCancelled)
      show ?thesis
      proof (cases hasCancelled)
        case True
        then have "?goal 0"
          using deltaLoop_cancelled(2)[OF False, of c n ctx listResult s2 opts later] page Inr
            kept deliver_saved[of e s2]
          by simp
        then show ?thesis by (intro exI[of _ 0]) simp
      next
        case whole: False
        let ?s3 = "snd (saveContext opts listResult s2)"
        have step: "?loop = deltaLoop e c opts n later (Some (page_context listResult)) ?s3"
          using deltaLoop_completed(2)[OF False, of c n ctx listResult s2 opts later] page Inr whole
          by simp
        obtain k where k: "k \<le> length (pagesOf later)"
          and saved: "savedContexts (trace (snd (deltaLoop e c opts n later
              (Some (page_context listResult)) ?s3))) =
            savedContexts (trace ?s3)
              @ (if opt_saveContextHandler opts
                 then map (\<lambda>p. deltaToSave (page_context p)) (take k (pagesOf later)) else [])"
          and last: "\<forall>newContext. fst (deltaLoop e c opts n later
              (Some (page_context listResult)) ?s3) = Inr (Some newContext) \<longrightarrow>
            k = length (pagesOf later) \<and> newContext = page_context (last (pagesOf later))"
          using MorePages.IH[of "Some (page_context listResult)" ?s3] by blast
        have "?goal (Suc k)"
          using step saved last some kept saveContext_saved[of opts listResult s2] by simp
        then show ?thesis
          using k by (intro exI[of _ "Suc k"]) simp
      qed
    qed
  qed
qed



subsection \<open>\<open>start\<close> as a whole\<close>

text \<open>
  Claim C8. A call of \<open>start\<close> in a state other than \<open>idle\<close> fails with the error
  \<open>alreadyStarted\<close> and leaves the object as it was. From \<open>idle\<close> the state becomes
  \<open>in_progress\<close>, and the run goes on from there.
\<close>

theorem start_guard:
  "(state' s \<noteq> ''idle'' \<longrightarrow>
      start e c opts s = (Inl (alreadyStarted s), s) \<and> code (alreadyStarted s) = ''alreadyStarted'')
   \<and> (state' s = ''idle'' \<longrightarrow>
        enter s = (Inr (), s\<lparr>state' := ''in_progress''\<rparr>)
        \<and> start e c opts s = run e c opts (s\<lparr>state' := ''in_progress''\<rparr>))"
  by (simp add: start_def enter_def seq_def throw_def ret_def alreadyStarted_def newJoplinError_def)

theorem start_guard_witness:
  "state' running \<noteq> ''idle''
   \<and> start exampleEnv exampleCollab exampleOptions running = (Inl (alreadyStarted running), running)
   \<and> code (alreadyStarted running) = ''alreadyStarted''
   \<and> state' (newSynchronizer ''desktop'' ''client'') = ''idle''
   \<and> enter (newSynchronizer ''desktop'' ''client'') = (Inr (), running)"
proof -
  have busy: "state' running \<noteq> ''idle''"
    and idle: "state' (newSynchronizer ''desktop'' ''client'') = ''idle''"
    by (simp_all add: example_defs)
  show ?thesis
    using busy idle start_guard[of running exampleEnv exampleCollab exampleOptions]
      start_guard[of "newSynchronizer ''desktop'' ''client''" exampleEnv exampleCollab
        exampleOptions]
    by (simp add: running_def)
qed







subsection \<open>Errors of the file API under a lost lock\<close>

lemma lockErrorStatus_cases:
  "lockErrorStatus' e s =
     (case outcome e (length (trace s)) (HasActiveLock LockExclusive None) of
        Some lockHandlerError \<Rightarrow>
          (Inl lockHandlerError, record_event (Call (HasActiveLock LockExclusive None)) s)
      | None \<Rightarrow>
          if hasActiveLock e (length (trace s)) LockExclusive
          then (Inr ''hasExclusiveLock'', record_event (Call (HasActiveLock LockExclusive None)) s)
          else
            (case outcome e (Suc (length (trace s)))
                    (HasActiveLock LockSync (Some (appType' s, clientId' s))) of
               Some lockHandlerError \<Rightarrow>
                 (Inl lockHandlerError,
                  record_event (Call (HasActiveLock LockSync (Some (appType' s, clientId' s))))
                    (record_event (Call (HasActiveLock LockExclusive None)) s))
             | None \<Rightarrow>
                 (Inr (if hasActiveLock e (Suc (length (trace s))) LockSync then []
                       else ''syncLockGone''),
                  record_event (Call (HasActiveLock LockSync (Some (appType' s, clientId' s))))
                    (record_event (Call (HasActiveLock LockExclusive None)) s))))"
  by (simp add: lockErrorStatus'_def seq_def ask_def ret_def gets_def record_event_def
      split: option.splits)

lemma lockErrorStatus_values:
  "lockErrorStatus' e s = (Inr st, s') \<Longrightarrow> st \<in> {[], ''hasExclusiveLock'', ''syncLockGone''}"
  by (auto simp: lockErrorStatus_cases split: option.splits if_splits)

text \<open>
  Claim C9, as amended. A call through \<open>apiCall\<close> while \<open>syncTargetIsLocked_\<close> is set fails
  with a \<open>lockError\<close> and leaves the object, and so the trace, as it was: the file API is
  not invoked. Otherwise the file API is invoked, and when it fails \<open>lockErrorStatus_\<close> is
  asked, outside of any \<open>try\<close>:

  \<^item> if the lock handler fails in turn, \<open>apiCall\<close> throws the error of the lock handler,
    which is neither a \<open>lockError\<close> nor the original error;
  \<^item> if the status is not empty (it is \<open>hasExclusiveLock\<close> or \<open>syncLockGone\<close>), the
    error thrown is a \<open>lockError\<close> whose message carries the status and the message of the
    original error;
  \<^item> if the status is empty, the original error is thrown unchanged.

  The last part says when \<open>lockErrorStatus_\<close> gives which of these answers.
\<close>

theorem apiCall_lock_errors:
  "(syncTargetIsLocked' s \<longrightarrow>
      apiCall e req answer s =
        (Inl (newJoplinError ''Sync target is locked - aborting API call'' ''lockError''), s))
   \<and> (\<not> syncTargetIsLocked' s \<and> api_outcome e (length (trace s)) req = None \<longrightarrow>
        apiCall e req answer s = (Inr (answer (length (trace s))), record_event (Api req) s))
   \<and> (\<not> syncTargetIsLocked' s \<and> api_outcome e (length (trace s)) req = Some error
        \<and> lockErrorStatus' e (record_event (Api req) s) = (Inl lockHandlerError, s') \<longrightarrow>
        apiCall e req answer s = (Inl lockHandlerError, s'))
   \<and> (\<not> syncTargetIsLocked' s \<and> api_outcome e (length (trace s)) req = Some error
        \<and> lockErrorStatus' e (record_event (Api req) s) = (Inr lockStatus, s') \<longrightarrow>
        lockStatus \<in> {[], ''hasExclusiveLock'', ''syncLockGone''}
        \<and> (lockStatus \<noteq> [] \<longrightarrow>
              apiCall e req answer s =
                (Inl (newJoplinError
                   (''Sync target lock error: '' @ lockStatus @ ''. Original error was: ''
                      @ message error) ''lockError''), s'))
        \<and> (lockStatus = [] \<longrightarrow> apiCall e req answer s = (Inl error, s')))
   \<and> lockErrorStatus' e s0 =
       (case outcome e (length (trace s0)) (HasActiveLock LockExclusive None) of
          Some failure \<Rightarrow> (Inl failure, record_event (Call (HasActiveLock LockExclusive None)) s0)
        | None \<Rightarrow>
            if hasActiveLock e (length (trace s0)) LockExclusive
            then (Inr ''hasExclusiveLock'',
                  record_event (Call (HasActiveLock LockExclusive None)) s0)
            else
              (case outcome e (Suc (length (trace s0)))
                      (HasActiveLock LockSync (Some (appType' s0, clientId' s0))) of
                 Some failure \<Rightarrow>
                   (Inl failure,
                    record_event (Call (HasActiveLock LockSync (Some (appType' s0, clientId' s0))))
                      (record_event (Call (HasActiveLock LockExclusive None)) s0))
               | None \<Rightarrow>
                   (Inr (if hasActiveLock e (Suc (length (trace s0))) LockSync then []
                         else ''syncLockGone''),
                    record_event (Call (HasActiveLock LockSync (Some (appType' s0, clientId' s0))))
                      (record_event (Call (HasActiveLock LockExclusive None)) s0))))"
proof -
  have flag: "syncTargetIsLocked' s \<longrightarrow>
      apiCall e req answer s =
        (Inl (newJoplinError ''Sync target is locked - aborting API call'' ''lockError''), s)"
    by (simp add: apiCall_def throw_def)
  have returns: "\<not> syncTargetIsLocked' s \<and> api_outcome e (length (trace s)) req = None \<longrightarrow>
      apiCall e req answer s = (Inr (answer (length (trace s))), record_event (Api req) s)"
    by (simp add: apiCall_def)
  have handler: "\<not> syncTargetIsLocked' s \<and> api_outcome e (length (trace s)) req = Some error
        \<and> lockErrorStatus' e (record_event (Api req) s) = (Inl lockHandlerError, s') \<longrightarrow>
        apiCall e req answer s = (Inl lockHandlerError, s')"
    by (simp add: apiCall_def seq_def)
  have status: "\<not> syncTargetIsLocked' s \<and> api_outcome e (length (trace s)) req = Some error
        \<and> lockErrorStatus' e (record_event (Api req) s) = (Inr lockStatus, s') \<longrightarrow>
        lockStatus \<in> {[], ''hasExclusiveLock'', ''syncLockGone''}
        \<and> (lockStatus \<noteq> [] \<longrightarrow>
              apiCall e req answer s =
                (Inl (newJoplinError
                   (''Sync target lock error: '' @ lockStatus @ ''. Original error was: ''
                      @ message error) ''lockError''), s'))
        \<and> (lockStatus = [] \<longrightarrow> apiCall e req answer s = (Inl error, s'))"
    using lockErrorStatus_values[of e "record_event (Api req) s" lockStatus s']
    by (auto simp: apiCall_def throw_def seq_def)
  show ?thesis
    using flag returns handler status lockErrorStatus_cases[of e s0] by simp
qed

theorem apiCall_lock_errors_witness:
  "syncTargetIsLocked' (running\<lparr>syncTargetIsLocked' := True\<rparr>)
   \<and> apiCall exampleEnv (ApiDelete ''n1.md'') nothing (running\<lparr>syncTargetIsLocked' := True\<rparr>) =
       (Inl (newJoplinError ''Sync target is locked - aborting API call'' ''lockError''),
        running\<lparr>syncTargetIsLocked' := True\<rparr>)
   \<and> \<not> syncTargetIsLocked' running
   \<and> api_outcome exampleEnv (length (trace running)) (ApiDelete ''n1.md'') = None
   \<and> apiCall exampleEnv (ApiDelete ''n1.md'') nothing running =
       (Inr (), record_event (Api (ApiDelete ''n1.md'')) running)
   \<and> api_outcome severed (length (trace running)) (ApiDelete ''n1.md'') =
       Some (newJoplinError ''socket hang up'' ''ECONNRESET'')
   \<and> fst (lockErrorStatus' severed (record_event (Api (ApiDelete ''n1.md'')) running)) =
       Inl (newJoplinError ''lock handler unreachable'' ''ENOTFOUND'')
   \<and> fst (apiCall severed (ApiDelete ''n1.md'') nothing running) =
       Inl (newJoplinError ''lock handler unreachable'' ''ENOTFOUND'')
   \<and> api_outcome (offline\<lparr>hasActiveLock := (\<lambda>n t. False)\<rparr>) (length (trace running))
         (ApiDelete ''n1.md'') = Some (newJoplinError ''offline'' [])
   \<and> fst (lockErrorStatus' (offline\<lparr>hasActiveLock := (\<lambda>n t. False)\<rparr>)
            (record_event (Api (ApiDelete ''n1.md'')) running)) = Inr ''syncLockGone''
   \<and> fst (apiCall (offline\<lparr>hasActiveLock := (\<lambda>n t. False)\<rparr>) (ApiDelete ''n1.md'') nothing
            running) =
       Inl (newJoplinError ''Sync target lock error: syncLockGone. Original error was: offline''
              ''lockError'')
   \<and> api_outcome offline (length (trace running)) (ApiDelete ''n1.md'') =
       Some (newJoplinError ''offline'' [])
   \<and> fst (lockErrorStatus' offline (record_event (Api (ApiDelete ''n1.md'')) running)) = Inr []
   \<and> fst (apiCall offline (ApiDelete ''n1.md'') nothing running) =
       Inl (newJoplinError ''offline'' [])"
proof -
  let ?req = "ApiDelete ''n1.md''"
  let ?gone = "offline\<lparr>hasActiveLock := (\<lambda>n t. False)\<rparr>"
  let ?down = "newJoplinError ''lock handler unreachable'' ''ENOTFOUND''"
  have locked: "syncTargetIsLocked' (running\<lparr>syncTargetIsLocked' := True\<rparr>)"
    by simp
  have free: "\<not> syncTargetIsLocked' running"
    by (simp add: example_defs)
  have fine: "api_outcome exampleEnv (length (trace running)) ?req = None"
    and hung: "api_outcome severed (length (trace running)) ?req =
      Some (newJoplinError ''socket hang up'' ''ECONNRESET'')"
    and gone: "api_outcome ?gone (length (trace running)) ?req =
      Some (newJoplinError ''offline'' [])"
    and held: "api_outcome offline (length (trace running)) ?req =
      Some (newJoplinError ''offline'' [])"
    by (simp_all add: example_defs)
  obtain s1 where s1: "lockErrorStatus' severed (record_event (Api ?req) running) = (Inl ?down, s1)"
    by (simp add: run_defs example_defs)
  obtain s2 where s2: "lockErrorStatus' ?gone (record_event (Api ?req) running)
      = (Inr ''syncLockGone'', s2)"
    by (simp add: run_defs example_defs)
  obtain s3 where s3: "lockErrorStatus' offline (record_event (Api ?req) running) = (Inr [], s3)"
    by (simp add: run_defs example_defs)
  from locked free fine hung gone held s1 s2 s3
    apiCall_lock_errors[where s = "running\<lparr>syncTargetIsLocked' := True\<rparr>" and e = exampleEnv
        and req = ?req and answer = nothing]
    apiCall_lock_errors[where s = running and e = exampleEnv and req = ?req and answer = nothing]
    apiCall_lock_errors[where s = running and e = severed and req = ?req and answer = nothing
        and error = "newJoplinError ''socket hang up'' ''ECONNRESET''"
        and lockHandlerError = ?down and s' = s1]
    apiCall_lock_errors[where s = running and e = ?gone and req = ?req and answer = nothing
        and error = "newJoplinError ''offline'' []" and lockStatus = "''syncLockGone''"
        and s' = s2]
    apiCall_lock_errors[where s = running and e = offline and req = ?req and answer = nothing
        and error = "newJoplinError ''offline'' []" and lockStatus = "[]" and s' = s3]
  show ?thesis
    by (simp add: newJoplinError_def nothing_def)
qed

text \<open>
  The file API fails with \<open>ECONNRESET\<close> and the lock handler cannot be reached: the error
  that \<open>apiCall\<close> throws is the one of the lock handler. It is not a \<open>lockError\<close>, and it is
  not the error of the file API.
\<close>

theorem apiCall_third_error:
  "\<not> syncTargetIsLocked' running
   \<and> api_outcome severed (length (trace running)) (ApiDelete ''n1.md'') =
       Some (newJoplinError ''socket hang up'' ''ECONNRESET'')
   \<and> fst (apiCall severed (ApiDelete ''n1.md'') nothing running) =
       Inl (newJoplinError ''lock handler unreachable'' ''ENOTFOUND'')
   \<and> code (newJoplinError ''lock handler unreachable'' ''ENOTFOUND'') \<noteq> ''lockError''
   \<and> newJoplinError ''lock handler unreachable'' ''ENOTFOUND'' \<noteq>
       newJoplinError ''socket hang up'' ''ECONNRESET''"
  by (simp add: run_defs example_defs)

end
